theory Spec2Isabelle
  imports Main
begin

section \<open>Python values and string primitives used by the clients\<close>

text \<open>
  Strings are lists of characters. A path parameter value is either Python's \<open>None\<close>
  or a value given by its string form: \<open>PyVal s\<close> stands for any value \<open>v\<close> other than
  \<open>None\<close> with \<open>str(v) = s\<close>, which is all that \<open>_build_url\<close> reads of it.
\<close>

datatype pyval = PyNone | PyVal string

fun py_str :: "pyval \<Rightarrow> string" where
  "py_str PyNone = ''None''"
| "py_str (PyVal s) = s"

text \<open>\<open>d.get(k)\<close>: the value stored under \<open>k\<close>, or \<open>None\<close> when the key is absent.\<close>

definition dict_get :: "(string \<rightharpoonup> pyval) \<Rightarrow> string \<Rightarrow> pyval" where
  "dict_get d k = (case d k of None \<Rightarrow> PyNone | Some v \<Rightarrow> v)"

text \<open>\<open>s.find(c)\<close> for a one-character \<open>c\<close>: the first index of \<open>c\<close>, or \<open>-1\<close>.\<close>

fun py_find :: "string \<Rightarrow> char \<Rightarrow> int" where
  "py_find [] c = - 1"
| "py_find (x # xs) c =
     (if x = c then 0 else (let r = py_find xs c in if r < 0 then - 1 else r + 1))"

text \<open>\<open>s.find(c, start)\<close> with \<open>start \<ge> 0\<close> (the only way the clients call it).\<close>

definition py_find_from :: "string \<Rightarrow> char \<Rightarrow> int \<Rightarrow> int" where
  "py_find_from s c start =
     (let r = py_find (drop (nat start) s) c in if r < 0 then - 1 else start + r)"

text \<open>
  \<open>s[i:j]\<close>: a negative bound counts from the end, and both bounds are clamped to
  \<open>0 .. len(s)\<close>; the slice is empty when the upper bound is not above the lower one.
\<close>

definition slice_bound :: "string \<Rightarrow> int \<Rightarrow> int" where
  "slice_bound s k =
     (let n = int (length s) in if k < 0 then max 0 (n + k) else min k n)"

definition py_slice :: "string \<Rightarrow> int \<Rightarrow> int \<Rightarrow> string" where
  "py_slice s i j =
     (let lo = slice_bound s i; hi = slice_bound s j
      in take (nat (hi - lo)) (drop (nat lo) s))"

text \<open>
  \<open>s.replace(old, new)\<close>: every non-overlapping occurrence of \<open>old\<close>, found from the
  left, is replaced. For an empty \<open>old\<close> Python inserts \<open>new\<close> before every character
  and at the end.
\<close>

function replace_occ :: "string \<Rightarrow> string \<Rightarrow> string \<Rightarrow> string" where
  "replace_occ [] old new = []"
| "replace_occ (x # xs) old new =
     (if old \<noteq> [] \<and> take (length old) (x # xs) = old
      then new @ replace_occ (drop (length old) (x # xs)) old new
      else x # replace_occ xs old new)"
  by pat_completeness auto
termination
  by (relation "measure (\<lambda>(s, old, new). length s)") (auto simp: neq_Nil_conv)

definition py_replace :: "string \<Rightarrow> string \<Rightarrow> string \<Rightarrow> string" where
  "py_replace s old new =
     (if old = [] then new @ concat (map (\<lambda>c. c # new) s) else replace_occ s old new)"

text \<open>
  A response of the transport: opaque to the clients, which read only \<open>status_code\<close>.
\<close>

record response =
  status_code :: int
  response_headers :: "(string \<times> string) list"
  response_body :: string

text \<open>
  What a call can raise: Python's own \<open>IndexError\<close> and \<open>TypeError\<close>, the two
  exception classes of the repository (each carries the response), and \<open>OtherError\<close>
  for an exception raised by a collaborator (the transport, an auth constructor), which
  passes through the clients unchanged.
\<close>

datatype py_exn =
    IndexError
  | TypeError
  | OtherError string
  | ServiceException response
  | HttpClientException response

text \<open>\<open>s[-1]\<close>: the last character; indexing the empty string raises \<open>IndexError\<close>.\<close>

definition py_last :: "string \<Rightarrow> py_exn + char" where
  "py_last s = (if s = [] then Inl IndexError else Inr (last s))"

text \<open>
  A timeout is \<open>None\<close>, a number of seconds (an integer stands for any number: the
  clients only test it for truth) or a (connect, read) pair.
\<close>

datatype pytimeout = TNone | TNum int | TPair int int

text \<open>Python truth of a timeout: \<open>None\<close> and \<open>0\<close> are false, a pair is true.\<close>

fun truthy :: "pytimeout \<Rightarrow> bool" where
  "truthy TNone = False"
| "truthy (TNum n) = (n \<noteq> 0)"
| "truthy (TPair c r) = True"

text \<open>
  \<open>self._requestor\<close>: the session passed to the constructor (a session object is
  identified by its address), or the module function \<open>requests.request\<close>.
\<close>

datatype requestor = Session nat | RequestsRequest

text \<open>The attributes \<open>__init__\<close> sets, the same four in \<open>HttpService\<close> and \<open>HttpClient\<close>.\<close>

record 'a client_inst =
  self_url_root :: string
  self_requestor :: requestor
  self_auth :: "'a option"
  self_timeout :: pytimeout

text \<open>The arguments of the call \<open>self._requestor.request(...)\<close>.\<close>

record 'a transport_call =
  call_method :: string
  call_url :: string
  call_params :: "(string \<times> string) list option"
  call_data :: "string option"
  call_headers :: "(string \<times> string) list option"
  call_timeout :: pytimeout
  call_auth :: "'a option"

text \<open>
  The transport is a collaborator outside the repository: given the requestor and the
  call, it returns a response or raises (\<open>Inl\<close>, with the name of what it raised).
  What \<open>.request(...)\<close> does on either kind of requestor is the transport's to say.
\<close>

type_synonym 'a transport = "requestor \<Rightarrow> 'a transport_call \<Rightarrow> string + response"

section \<open>HttpService (services.py)\<close>

text \<open>The \<open>url_root\<close> setter (lines 67-70): \<open>value[-1]\<close> is read first.\<close>

definition HttpService_set_url_root :: "string \<Rightarrow> py_exn + string" where
  "HttpService_set_url_root value =
     (case py_last value of
        Inl e \<Rightarrow> Inl e
      | Inr c \<Rightarrow> if c = CHR ''/'' then Inr value else Inr (value @ ''/''))"

text \<open>\<open>__init__(url_root, session=None, auth=None, timeout=None)\<close>.\<close>

definition HttpService_init ::
  "string \<Rightarrow> nat option \<Rightarrow> 'a option \<Rightarrow> pytimeout \<Rightarrow> py_exn + 'a client_inst" where
  "HttpService_init url_root session auth timeout =
     (case HttpService_set_url_root url_root of
        Inl e \<Rightarrow> Inl e
      | Inr r \<Rightarrow>
          Inr \<lparr>self_url_root = r,
               self_requestor = (case session of Some s \<Rightarrow> Session s | None \<Rightarrow> RequestsRequest),
               self_auth = auth,
               self_timeout = timeout\<rparr>)"

text \<open>
  Lines 43-49 of \<open>_build_url\<close>: remove a leading slash and force a trailing one.
  \<open>path[0]\<close> is read only when \<open>path\<close> is non-empty; \<open>path[-1]\<close> is read after the
  leading slash has been removed, and \<open>and\<close> evaluates it before \<open>path.find\<close>.
\<close>

definition HttpService_fix_slashes :: "string \<Rightarrow> py_exn + string" where
  "HttpService_fix_slashes path =
     (if path \<noteq> [] then
        (let path1 = (if hd path = CHR ''/'' then drop 1 path else path) in
         case py_last path1 of
           Inl e \<Rightarrow> Inl e
         | Inr c \<Rightarrow>
             if c \<noteq> CHR ''/'' \<and> py_find path1 CHR ''?'' = - 1
             then Inr (path1 @ ''/'') else Inr path1)
      else Inr path)"

text \<open>The body of the \<open>while\<close> loop of \<open>_build_url\<close> (lines 55-58), giving the new \<open>url\<close>.\<close>

definition HttpService_substitute :: "(string \<rightharpoonup> pyval) \<Rightarrow> string \<Rightarrow> int \<Rightarrow> string" where
  "HttpService_substitute path_params url start =
     (let end = py_find_from url CHR ''}'' start;
          replace = py_slice url start (end + 1);
          param = py_str (dict_get path_params (py_slice replace 1 (- 1)))
      in py_replace url replace (if param \<noteq> [] then param else []))"

text \<open>
  The \<open>while start >= 0\<close> loop on the pair \<open>(url, start)\<close>. Nothing in the source bounds
  the number of rounds, so not returning is the value \<open>None\<close>.
\<close>

partial_function (option) HttpService_loop ::
  "(string \<rightharpoonup> pyval) \<Rightarrow> string \<Rightarrow> int \<Rightarrow> string option" where
  "HttpService_loop path_params url start =
     (if start \<ge> 0
      then HttpService_loop path_params (HttpService_substitute path_params url start)
             (py_find (HttpService_substitute path_params url start) CHR ''{'')
      else Some url)"

declare HttpService_loop.simps [code]

text \<open>
  \<open>_build_url(path, **path_params)\<close> of a service whose \<open>url_root\<close> property is
  \<open>url_root\<close>: \<open>None\<close> when the loop does not return, \<open>Some (Inl e)\<close> when \<open>e\<close> is
  raised, \<open>Some (Inr url)\<close> when \<open>url\<close> is returned.
\<close>

definition HttpService_build_url ::
  "string \<Rightarrow> string \<Rightarrow> (string \<rightharpoonup> pyval) \<Rightarrow> (py_exn + string) option" where
  "HttpService_build_url url_root path path_params =
     (case HttpService_fix_slashes path of
        Inl e \<Rightarrow> Some (Inl e)
      | Inr path' \<Rightarrow>
          map_option Inr
            (HttpService_loop path_params (url_root @ path') (py_find (url_root @ path') CHR ''{'')))"

text \<open>
  The call \<open>self._build_url(path, **path_params)\<close> made by \<open>make_request\<close>: Python
  refuses a keyword that names a parameter already bound (\<open>self\<close>, \<open>path\<close>) with
  \<open>TypeError\<close> before the body runs.
\<close>

definition HttpService_build_url_kw ::
  "string \<Rightarrow> string \<Rightarrow> (string \<rightharpoonup> pyval) \<Rightarrow> (py_exn + string) option" where
  "HttpService_build_url_kw url_root path path_params =
     (if path_params ''self'' \<noteq> None \<or> path_params ''path'' \<noteq> None
      then Some (Inl TypeError)
      else HttpService_build_url url_root path path_params)"

text \<open>The keyword arguments of lines 90-98, \<open>url\<close> being the URL already built.\<close>

definition HttpService_request_call ::
  "'a client_inst \<Rightarrow> string \<Rightarrow> string \<Rightarrow> (string \<times> string) list option \<Rightarrow> string option \<Rightarrow>
   (string \<times> string) list option \<Rightarrow> pytimeout \<Rightarrow> 'a transport_call" where
  "HttpService_request_call self method url query_params data headers timeout =
     \<lparr>call_method = method,
      call_url = url,
      call_params = query_params,
      call_data = data,
      call_headers = headers,
      call_timeout = (if truthy timeout then timeout else self_timeout self),
      call_auth = self_auth self\<rparr>"

text \<open>
  \<open>make_request\<close>. \<open>path_params if path_params else {}\<close> turns \<open>None\<close> (and the empty
  dictionary) into the empty dictionary.
\<close>

definition HttpService_make_request ::
  "'a transport \<Rightarrow> 'a client_inst \<Rightarrow> string \<Rightarrow> string \<Rightarrow> (string \<rightharpoonup> pyval) option \<Rightarrow>
   (string \<times> string) list option \<Rightarrow> string option \<Rightarrow> (string \<times> string) list option \<Rightarrow>
   pytimeout \<Rightarrow> bool \<Rightarrow> (py_exn + response) option" where
  "HttpService_make_request transport self method path path_params query_params data headers
       timeout raise_exception =
     (case HttpService_build_url_kw (self_url_root self) path
             (case path_params of Some d \<Rightarrow> d | None \<Rightarrow> Map.empty) of
        None \<Rightarrow> None
      | Some (Inl e) \<Rightarrow> Some (Inl e)
      | Some (Inr url) \<Rightarrow>
          (case transport (self_requestor self)
                  (HttpService_request_call self method url query_params data headers timeout) of
             Inl x \<Rightarrow> Some (Inl (OtherError x))
           | Inr res \<Rightarrow>
               if status_code res \<ge> 300 \<and> raise_exception
               then Some (Inl (ServiceException res))
               else Some (Inr res)))"

subsection \<open>Shortcut methods\<close>

text \<open>
  Each shortcut forwards to \<open>make_request\<close>; the parameters it does not pass keep the
  defaults of \<open>make_request\<close> (\<open>None\<close>).
\<close>

definition HttpService_get ::
  "'a transport \<Rightarrow> 'a client_inst \<Rightarrow> string \<Rightarrow> (string \<rightharpoonup> pyval) option \<Rightarrow>
   (string \<times> string) list option \<Rightarrow> (string \<times> string) list option \<Rightarrow> bool \<Rightarrow>
   (py_exn + response) option" where
  "HttpService_get transport self path path_params query_params headers raise_exception =
     HttpService_make_request transport self ''GET'' path path_params query_params None headers
       TNone raise_exception"

definition HttpService_post ::
  "'a transport \<Rightarrow> 'a client_inst \<Rightarrow> string \<Rightarrow> (string \<rightharpoonup> pyval) option \<Rightarrow>
   string option \<Rightarrow> (string \<times> string) list option \<Rightarrow> bool \<Rightarrow> (py_exn + response) option" where
  "HttpService_post transport self path path_params data headers raise_exception =
     HttpService_make_request transport self ''POST'' path path_params None data headers
       TNone raise_exception"

definition HttpService_put ::
  "'a transport \<Rightarrow> 'a client_inst \<Rightarrow> string \<Rightarrow> (string \<rightharpoonup> pyval) option \<Rightarrow>
   string option \<Rightarrow> (string \<times> string) list option \<Rightarrow> bool \<Rightarrow> (py_exn + response) option" where
  "HttpService_put transport self path path_params data headers raise_exception =
     HttpService_make_request transport self ''PUT'' path path_params None data headers
       TNone raise_exception"

definition HttpService_patch ::
  "'a transport \<Rightarrow> 'a client_inst \<Rightarrow> string \<Rightarrow> (string \<rightharpoonup> pyval) option \<Rightarrow>
   string option \<Rightarrow> (string \<times> string) list option \<Rightarrow> bool \<Rightarrow> (py_exn + response) option" where
  "HttpService_patch transport self path path_params data headers raise_exception =
     HttpService_make_request transport self ''PATCH'' path path_params None data headers
       TNone raise_exception"

definition HttpService_delete ::
  "'a transport \<Rightarrow> 'a client_inst \<Rightarrow> string \<Rightarrow> (string \<rightharpoonup> pyval) option \<Rightarrow>
   (string \<times> string) list option \<Rightarrow> bool \<Rightarrow> (py_exn + response) option" where
  "HttpService_delete transport self path path_params headers raise_exception =
     HttpService_make_request transport self ''DELETE'' path path_params None None headers
       TNone raise_exception"

subsection \<open>Calling a shortcut with keyword arguments\<close>

text \<open>
  A call \<open>service.get(path=..., timeout=...)\<close> supplies some keywords and leaves the
  others out: a field is \<open>None\<close> when its keyword is left out and \<open>Some v\<close> when it
  is supplied with the value \<open>v\<close>. Python raises \<open>TypeError\<close> for a keyword that the
  signature of the method does not have, and uses the default of the signature for a
  keyword left out.
\<close>

record call_kwargs =
  kw_path :: "string option"
  kw_path_params :: "(string \<rightharpoonup> pyval) option option"
  kw_query_params :: "(string \<times> string) list option option"
  kw_data :: "string option option"
  kw_headers :: "(string \<times> string) list option option"
  kw_timeout :: "pytimeout option"
  kw_raise_exception :: "bool option"

definition supplied_or :: "'b \<Rightarrow> 'b option \<Rightarrow> 'b" where
  "supplied_or dflt kw = (case kw of None \<Rightarrow> dflt | Some v \<Rightarrow> v)"

text \<open>\<open>get(path='', path_params=None, query_params=None, headers=None, raise_exception=True)\<close>\<close>

definition HttpService_get_kwargs ::
  "'a transport \<Rightarrow> 'a client_inst \<Rightarrow> call_kwargs \<Rightarrow> (py_exn + response) option" where
  "HttpService_get_kwargs transport self kw =
     (if kw_data kw \<noteq> None \<or> kw_timeout kw \<noteq> None then Some (Inl TypeError)
      else HttpService_get transport self (supplied_or [] (kw_path kw))
             (supplied_or None (kw_path_params kw)) (supplied_or None (kw_query_params kw))
             (supplied_or None (kw_headers kw)) (supplied_or True (kw_raise_exception kw)))"

text \<open>\<open>post(path='', path_params=None, data=None, headers=None, raise_exception=True)\<close>\<close>

definition HttpService_post_kwargs ::
  "'a transport \<Rightarrow> 'a client_inst \<Rightarrow> call_kwargs \<Rightarrow> (py_exn + response) option" where
  "HttpService_post_kwargs transport self kw =
     (if kw_query_params kw \<noteq> None \<or> kw_timeout kw \<noteq> None then Some (Inl TypeError)
      else HttpService_post transport self (supplied_or [] (kw_path kw))
             (supplied_or None (kw_path_params kw)) (supplied_or None (kw_data kw))
             (supplied_or None (kw_headers kw)) (supplied_or True (kw_raise_exception kw)))"

text \<open>\<open>put(path='', path_params=None, data=None, headers=None, raise_exception=True)\<close>\<close>

definition HttpService_put_kwargs ::
  "'a transport \<Rightarrow> 'a client_inst \<Rightarrow> call_kwargs \<Rightarrow> (py_exn + response) option" where
  "HttpService_put_kwargs transport self kw =
     (if kw_query_params kw \<noteq> None \<or> kw_timeout kw \<noteq> None then Some (Inl TypeError)
      else HttpService_put transport self (supplied_or [] (kw_path kw))
             (supplied_or None (kw_path_params kw)) (supplied_or None (kw_data kw))
             (supplied_or None (kw_headers kw)) (supplied_or True (kw_raise_exception kw)))"

text \<open>\<open>patch(path='', path_params=None, data=None, headers=None, raise_exception=True)\<close>\<close>

definition HttpService_patch_kwargs ::
  "'a transport \<Rightarrow> 'a client_inst \<Rightarrow> call_kwargs \<Rightarrow> (py_exn + response) option" where
  "HttpService_patch_kwargs transport self kw =
     (if kw_query_params kw \<noteq> None \<or> kw_timeout kw \<noteq> None then Some (Inl TypeError)
      else HttpService_patch transport self (supplied_or [] (kw_path kw))
             (supplied_or None (kw_path_params kw)) (supplied_or None (kw_data kw))
             (supplied_or None (kw_headers kw)) (supplied_or True (kw_raise_exception kw)))"

text \<open>\<open>delete(path='', path_params=None, headers=None, raise_exception=True)\<close>\<close>

definition HttpService_delete_kwargs ::
  "'a transport \<Rightarrow> 'a client_inst \<Rightarrow> call_kwargs \<Rightarrow> (py_exn + response) option" where
  "HttpService_delete_kwargs transport self kw =
     (if kw_query_params kw \<noteq> None \<or> kw_data kw \<noteq> None \<or> kw_timeout kw \<noteq> None
      then Some (Inl TypeError)
      else HttpService_delete transport self (supplied_or [] (kw_path kw))
             (supplied_or None (kw_path_params kw))
             (supplied_or None (kw_headers kw)) (supplied_or True (kw_raise_exception kw)))"

section \<open>HttpClient (client.py)\<close>

text \<open>The \<open>url_root\<close> setter (lines 139-142): \<open>value[-1]\<close> is read first.\<close>

definition HttpClient_set_url_root :: "string \<Rightarrow> py_exn + string" where
  "HttpClient_set_url_root value =
     (case py_last value of
        Inl e \<Rightarrow> Inl e
      | Inr c \<Rightarrow> if c = CHR ''/'' then Inr value else Inr (value @ ''/''))"

text \<open>\<open>__init__(url_root, session=None, auth=None, timeout=None)\<close>.\<close>

definition HttpClient_init ::
  "string \<Rightarrow> nat option \<Rightarrow> 'a option \<Rightarrow> pytimeout \<Rightarrow> py_exn + 'a client_inst" where
  "HttpClient_init url_root session auth timeout =
     (case HttpClient_set_url_root url_root of
        Inl e \<Rightarrow> Inl e
      | Inr r \<Rightarrow>
          Inr \<lparr>self_url_root = r,
               self_requestor = (case session of Some s \<Rightarrow> Session s | None \<Rightarrow> RequestsRequest),
               self_auth = auth,
               self_timeout = timeout\<rparr>)"

text \<open>
  Lines 115-121 of \<open>_build_url\<close>: remove a leading slash and force a trailing one.
  \<open>path[0]\<close> is read only when \<open>path\<close> is non-empty; \<open>path[-1]\<close> is read after the
  leading slash has been removed, and \<open>and\<close> evaluates it before \<open>path.find\<close>.
\<close>

definition HttpClient_fix_slashes :: "string \<Rightarrow> py_exn + string" where
  "HttpClient_fix_slashes path =
     (if path \<noteq> [] then
        (let path1 = (if hd path = CHR ''/'' then drop 1 path else path) in
         case py_last path1 of
           Inl e \<Rightarrow> Inl e
         | Inr c \<Rightarrow>
             if c \<noteq> CHR ''/'' \<and> py_find path1 CHR ''?'' = - 1
             then Inr (path1 @ ''/'') else Inr path1)
      else Inr path)"

text \<open>The body of the \<open>while\<close> loop of \<open>_build_url\<close> (lines 127-130), giving the new \<open>url\<close>.\<close>

definition HttpClient_substitute :: "(string \<rightharpoonup> pyval) \<Rightarrow> string \<Rightarrow> int \<Rightarrow> string" where
  "HttpClient_substitute path_params url start =
     (let end = py_find_from url CHR ''}'' start;
          replace = py_slice url start (end + 1);
          param = py_str (dict_get path_params (py_slice replace 1 (- 1)))
      in py_replace url replace (if param \<noteq> [] then param else []))"

text \<open>
  The \<open>while start >= 0\<close> loop on the pair \<open>(url, start)\<close>. Nothing in the source bounds
  the number of rounds, so not returning is the value \<open>None\<close>.
\<close>

partial_function (option) HttpClient_loop ::
  "(string \<rightharpoonup> pyval) \<Rightarrow> string \<Rightarrow> int \<Rightarrow> string option" where
  "HttpClient_loop path_params url start =
     (if start \<ge> 0
      then HttpClient_loop path_params (HttpClient_substitute path_params url start)
             (py_find (HttpClient_substitute path_params url start) CHR ''{'')
      else Some url)"

declare HttpClient_loop.simps [code]

text \<open>
  \<open>_build_url(path, **path_params)\<close> of a client whose \<open>url_root\<close> property is
  \<open>url_root\<close>: \<open>None\<close> when the loop does not return, \<open>Some (Inl e)\<close> when \<open>e\<close> is
  raised, \<open>Some (Inr url)\<close> when \<open>url\<close> is returned.
\<close>

definition HttpClient_build_url ::
  "string \<Rightarrow> string \<Rightarrow> (string \<rightharpoonup> pyval) \<Rightarrow> (py_exn + string) option" where
  "HttpClient_build_url url_root path path_params =
     (case HttpClient_fix_slashes path of
        Inl e \<Rightarrow> Some (Inl e)
      | Inr path' \<Rightarrow>
          map_option Inr
            (HttpClient_loop path_params (url_root @ path') (py_find (url_root @ path') CHR ''{'')))"

text \<open>
  The call \<open>self._build_url(path, **path_params)\<close> made by \<open>make_request\<close>: Python
  refuses a keyword that names a parameter already bound (\<open>self\<close>, \<open>path\<close>) with
  \<open>TypeError\<close> before the body runs.
\<close>

definition HttpClient_build_url_kw ::
  "string \<Rightarrow> string \<Rightarrow> (string \<rightharpoonup> pyval) \<Rightarrow> (py_exn + string) option" where
  "HttpClient_build_url_kw url_root path path_params =
     (if path_params ''self'' \<noteq> None \<or> path_params ''path'' \<noteq> None
      then Some (Inl TypeError)
      else HttpClient_build_url url_root path path_params)"

text \<open>The keyword arguments of lines 162-170, \<open>url\<close> being the URL already built.\<close>

definition HttpClient_request_call ::
  "'a client_inst \<Rightarrow> string \<Rightarrow> string \<Rightarrow> (string \<times> string) list option \<Rightarrow> string option \<Rightarrow>
   (string \<times> string) list option \<Rightarrow> pytimeout \<Rightarrow> 'a transport_call" where
  "HttpClient_request_call self method url query_params data headers timeout =
     \<lparr>call_method = method,
      call_url = url,
      call_params = query_params,
      call_data = data,
      call_headers = headers,
      call_timeout = (if truthy timeout then timeout else self_timeout self),
      call_auth = self_auth self\<rparr>"

text \<open>
  \<open>make_request\<close>. \<open>path_params if path_params else {}\<close> turns \<open>None\<close> (and the empty
  dictionary) into the empty dictionary.
\<close>

definition HttpClient_make_request ::
  "'a transport \<Rightarrow> 'a client_inst \<Rightarrow> string \<Rightarrow> string \<Rightarrow> (string \<rightharpoonup> pyval) option \<Rightarrow>
   (string \<times> string) list option \<Rightarrow> string option \<Rightarrow> (string \<times> string) list option \<Rightarrow>
   pytimeout \<Rightarrow> bool \<Rightarrow> (py_exn + response) option" where
  "HttpClient_make_request transport self method path path_params query_params data headers
       timeout raise_exception =
     (case HttpClient_build_url_kw (self_url_root self) path
             (case path_params of Some d \<Rightarrow> d | None \<Rightarrow> Map.empty) of
        None \<Rightarrow> None
      | Some (Inl e) \<Rightarrow> Some (Inl e)
      | Some (Inr url) \<Rightarrow>
          (case transport (self_requestor self)
                  (HttpClient_request_call self method url query_params data headers timeout) of
             Inl x \<Rightarrow> Some (Inl (OtherError x))
           | Inr res \<Rightarrow>
               if status_code res \<ge> 300 \<and> raise_exception
               then Some (Inl (HttpClientException res))
               else Some (Inr res)))"

subsection \<open>Shortcut methods\<close>

text \<open>
  Each shortcut forwards to \<open>make_request\<close>; the parameters it does not pass keep the
  defaults of \<open>make_request\<close> (\<open>None\<close>).
\<close>

definition HttpClient_get ::
  "'a transport \<Rightarrow> 'a client_inst \<Rightarrow> string \<Rightarrow> (string \<rightharpoonup> pyval) option \<Rightarrow>
   (string \<times> string) list option \<Rightarrow> (string \<times> string) list option \<Rightarrow> bool \<Rightarrow>
   (py_exn + response) option" where
  "HttpClient_get transport self path path_params query_params headers raise_exception =
     HttpClient_make_request transport self ''GET'' path path_params query_params None headers
       TNone raise_exception"

definition HttpClient_post ::
  "'a transport \<Rightarrow> 'a client_inst \<Rightarrow> string \<Rightarrow> (string \<rightharpoonup> pyval) option \<Rightarrow>
   string option \<Rightarrow> (string \<times> string) list option \<Rightarrow> bool \<Rightarrow> (py_exn + response) option" where
  "HttpClient_post transport self path path_params data headers raise_exception =
     HttpClient_make_request transport self ''POST'' path path_params None data headers
       TNone raise_exception"

definition HttpClient_put ::
  "'a transport \<Rightarrow> 'a client_inst \<Rightarrow> string \<Rightarrow> (string \<rightharpoonup> pyval) option \<Rightarrow>
   string option \<Rightarrow> (string \<times> string) list option \<Rightarrow> bool \<Rightarrow> (py_exn + response) option" where
  "HttpClient_put transport self path path_params data headers raise_exception =
     HttpClient_make_request transport self ''PUT'' path path_params None data headers
       TNone raise_exception"

definition HttpClient_patch ::
  "'a transport \<Rightarrow> 'a client_inst \<Rightarrow> string \<Rightarrow> (string \<rightharpoonup> pyval) option \<Rightarrow>
   string option \<Rightarrow> (string \<times> string) list option \<Rightarrow> bool \<Rightarrow> (py_exn + response) option" where
  "HttpClient_patch transport self path path_params data headers raise_exception =
     HttpClient_make_request transport self ''PATCH'' path path_params None data headers
       TNone raise_exception"

definition HttpClient_delete ::
  "'a transport \<Rightarrow> 'a client_inst \<Rightarrow> string \<Rightarrow> (string \<rightharpoonup> pyval) option \<Rightarrow>
   (string \<times> string) list option \<Rightarrow> bool \<Rightarrow> (py_exn + response) option" where
  "HttpClient_delete transport self path path_params headers raise_exception =
     HttpClient_make_request transport self ''DELETE'' path path_params None None headers
       TNone raise_exception"

section \<open>Sessions, the session caches and the factories\<close>

text \<open>\<open>s.lower()\<close>, on the ASCII letters (header names are ASCII).\<close>

definition py_lower_char :: "char \<Rightarrow> char" where
  "py_lower_char c =
     (let n = (of_char c :: nat) in if 65 \<le> n \<and> n \<le> 90 then char_of (n + 32) else c)"

definition py_lower :: "string \<Rightarrow> string" where
  "py_lower s = map py_lower_char s"

text \<open>
  What the factories set on a session: the retry count of the adapter mounted for a
  URL prefix, and the headers. The headers of a session are a case-insensitive
  dictionary: an entry is kept under the lower-cased name, with the name as it was
  last written and the value.
\<close>

record session =
  mounts :: "string \<rightharpoonup> int"
  session_headers :: "string \<rightharpoonup> string \<times> string"

text \<open>
  \<open>session.headers.update(d)\<close>: each item of the dictionary \<open>d\<close> (its items in their
  order) is stored in turn, replacing an entry whose name differs in case only.
\<close>

definition headers_update ::
  "(string \<rightharpoonup> string \<times> string) \<Rightarrow> (string \<times> string) list \<Rightarrow> (string \<rightharpoonup> string \<times> string)" where
  "headers_update h d = fold (\<lambda>(k, v) h'. h'(py_lower k \<mapsto> (k, v))) d h"

text \<open>
  The state shared by all calls: the session objects created so far (the address of a
  session is its position, so a new session gets an address no other has), the
  dictionary \<open>__sessions\<close> of \<open>SessionCache\<close> in sessions.py, used by
  \<open>HttpServiceFactory\<close>, and the dictionary \<open>__sessions\<close> of the other \<open>SessionCache\<close>
  class, in client.py, used by \<open>HttpClient\<close>.
\<close>

record world =
  sessions :: "session list"
  service_sessions :: "string \<rightharpoonup> nat"
  client_sessions :: "string \<rightharpoonup> nat"

definition initial_world :: world where
  "initial_world = \<lparr>sessions = [], service_sessions = Map.empty, client_sessions = Map.empty\<rparr>"

text \<open>\<open>SessionCache\<close> of sessions.py.\<close>

definition SessionCache_get :: "world \<Rightarrow> string \<Rightarrow> nat option" where
  "SessionCache_get w name = service_sessions w name"

definition SessionCache_set :: "world \<Rightarrow> string \<Rightarrow> nat \<Rightarrow> world" where
  "SessionCache_set w name session = w\<lparr>service_sessions := (service_sessions w)(name \<mapsto> session)\<rparr>"

text \<open>\<open>SessionCache\<close> of client.py.\<close>

definition HttpClient_SessionCache_get :: "world \<Rightarrow> string \<Rightarrow> nat option" where
  "HttpClient_SessionCache_get w name = client_sessions w name"

definition HttpClient_SessionCache_set :: "world \<Rightarrow> string \<Rightarrow> nat \<Rightarrow> world" where
  "HttpClient_SessionCache_set w name session =
     w\<lparr>client_sessions := (client_sessions w)(name \<mapsto> session)\<rparr>"

text \<open>
  The class a factory method is called on: its \<open>__name__\<close> and its class attributes
  (\<open>service_root\<close>, \<open>default_headers\<close>, \<open>timeout\<close>, \<open>max_retires\<close>, \<open>auth\<close> in
  \<open>HttpServiceFactory\<close>; the same with a leading underscore in \<open>HttpClient\<close>). The
  default headers are the items of the dictionary, in their order. The auth attribute is
  \<open>None\<close> or a class, given by what calling it with keyword arguments returns or
  raises.
\<close>

record 'a factory_cls =
  cls_name :: string
  cls_service_root :: string
  cls_default_headers :: "(string \<times> string) list"
  cls_timeout :: pytimeout
  cls_max_retires :: int
  cls_auth :: "((string \<times> pyval) list \<Rightarrow> string + 'a) option"

text \<open>
  Lines 157-167 of services.py: the session of the class name, created, mounted and
  cached when the cache has none. \<open>fresh\<close> is what \<open>requests.Session()\<close> returns.
\<close>

definition HttpServiceFactory_session :: "session \<Rightarrow> 'a factory_cls \<Rightarrow> world \<Rightarrow> nat \<times> world" where
  "HttpServiceFactory_session fresh cls w =
     (case SessionCache_get w (cls_name cls) of
        Some session \<Rightarrow> (session, w)
      | None \<Rightarrow>
          (let session = length (sessions w);
               obj = fresh\<lparr>mounts := (mounts fresh)(''http://'' \<mapsto> cls_max_retires cls,
                                                   ''https://'' \<mapsto> cls_max_retires cls),
                          session_headers := headers_update (session_headers fresh) (cls_default_headers cls)\<rparr>
           in (session, SessionCache_set (w\<lparr>sessions := sessions w @ [obj]\<rparr>) (cls_name cls) session)))"

text \<open>
  Lines 169-172: \<open>auth(**auth_kwargs) if auth_kwargs else auth()\<close> when the class has an
  auth class.
\<close>

definition make_auth ::
  "'a factory_cls \<Rightarrow> (string \<times> pyval) list option \<Rightarrow> py_exn + 'a option" where
  "make_auth cls auth_kwargs =
     (case cls_auth cls of
        None \<Rightarrow> Inr None
      | Some auth \<Rightarrow>
          (case (if auth_kwargs \<noteq> None \<and> auth_kwargs \<noteq> Some [] then auth (the auth_kwargs) else auth []) of
             Inl x \<Rightarrow> Inl (OtherError x)
           | Inr a \<Rightarrow> Inr (Some a)))"

text \<open>\<open>HttpServiceFactory.make_service(auth_kwargs=None)\<close>: the result and the new state.\<close>

definition HttpServiceFactory_make_service ::
  "session \<Rightarrow> 'a factory_cls \<Rightarrow> (string \<times> pyval) list option \<Rightarrow> world \<Rightarrow>
   (py_exn + 'a client_inst) \<times> world" where
  "HttpServiceFactory_make_service fresh cls auth_kwargs w =
     (let (session, w') = HttpServiceFactory_session fresh cls w in
      case make_auth cls auth_kwargs of
        Inl e \<Rightarrow> (Inl e, w')
      | Inr auth \<Rightarrow> (HttpService_init (cls_service_root cls) (Some session) auth TNone, w'))"

text \<open>Lines 68-78 of client.py, with the cache of client.py.\<close>

definition HttpClient_session :: "session \<Rightarrow> 'a factory_cls \<Rightarrow> world \<Rightarrow> nat \<times> world" where
  "HttpClient_session fresh cls w =
     (case HttpClient_SessionCache_get w (cls_name cls) of
        Some session \<Rightarrow> (session, w)
      | None \<Rightarrow>
          (let session = length (sessions w);
               obj = fresh\<lparr>mounts := (mounts fresh)(''http://'' \<mapsto> cls_max_retires cls,
                                                   ''https://'' \<mapsto> cls_max_retires cls),
                          session_headers := headers_update (session_headers fresh) (cls_default_headers cls)\<rparr>
           in (session,
               HttpClient_SessionCache_set (w\<lparr>sessions := sessions w @ [obj]\<rparr>) (cls_name cls) session)))"

text \<open>\<open>HttpClient.make_client(auth_kwargs=None)\<close>.\<close>

definition HttpClient_make_client ::
  "session \<Rightarrow> 'a factory_cls \<Rightarrow> (string \<times> pyval) list option \<Rightarrow> world \<Rightarrow>
   (py_exn + 'a client_inst) \<times> world" where
  "HttpClient_make_client fresh cls auth_kwargs w =
     (let (session, w') = HttpClient_session fresh cls w in
      case make_auth cls auth_kwargs of
        Inl e \<Rightarrow> (Inl e, w')
      | Inr auth \<Rightarrow> (HttpClient_init (cls_service_root cls) (Some session) auth TNone, w'))"

text \<open>A run of factory calls, each on the state the one before left.\<close>

datatype 'a invocation =
    MakeService "'a factory_cls" "(string \<times> pyval) list option"
  | MakeClient "'a factory_cls" "(string \<times> pyval) list option"

fun invoke :: "session \<Rightarrow> 'a invocation \<Rightarrow> world \<Rightarrow> (py_exn + 'a client_inst) \<times> world" where
  "invoke fresh (MakeService cls auth_kwargs) w = HttpServiceFactory_make_service fresh cls auth_kwargs w"
| "invoke fresh (MakeClient cls auth_kwargs) w = HttpClient_make_client fresh cls auth_kwargs w"

fun run :: "session \<Rightarrow> 'a invocation list \<Rightarrow> world \<Rightarrow> (py_exn + 'a client_inst) list \<times> world" where
  "run fresh [] w = ([], w)"
| "run fresh (i # is) w =
     (let (r, w') = invoke fresh i w; (rs, w'') = run fresh is w' in (r # rs, w''))"

fun is_service :: "'a invocation \<Rightarrow> bool" where
  "is_service (MakeService cls auth_kwargs) = True"
| "is_service (MakeClient cls auth_kwargs) = False"

fun type_name :: "'a invocation \<Rightarrow> string" where
  "type_name (MakeService cls auth_kwargs) = cls_name cls"
| "type_name (MakeClient cls auth_kwargs) = cls_name cls"

section \<open>Notions used to state the properties\<close>

text \<open>
  Every \<open>{\<close> has a matching \<open>}\<close>: the opening braces can be paired with closing braces
  that come after them, no closing brace serving two opening ones. Equivalently, from
  each \<open>{\<close> onwards the string holds at least as many \<open>}\<close> as \<open>{\<close>. Closing braces
  without an opening one are allowed.
\<close>

fun braces_matched :: "string \<Rightarrow> bool" where
  "braces_matched [] = True"
| "braces_matched (c # s) =
     ((if c = CHR ''{'' then count_list s CHR ''{'' < count_list s CHR ''}'' else True)
      \<and> braces_matched s)"

text \<open>
  The path normalization in the words of the specification: a single leading separator
  is stripped; a trailing separator is appended exactly when the stripped path is
  non-empty, does not end with a separator and contains no \<open>?\<close>.
\<close>

definition spec_normalized_path :: "string \<Rightarrow> string" where
  "spec_normalized_path path =
     (let p = (if path \<noteq> [] \<and> hd path = CHR ''/'' then tl path else path)
      in if p \<noteq> [] \<and> last p \<noteq> CHR ''/'' \<and> CHR ''?'' \<notin> set p then p @ ''/'' else p)"

text \<open>
  The root normalization in the words of the specification: a trailing separator is
  appended when the root does not end with one, and the root is kept when it does.
\<close>

definition spec_normalized_root :: "string \<Rightarrow> string" where
  "spec_normalized_root value =
     (if value \<noteq> [] \<and> last value = CHR ''/'' then value else value @ ''/'')"

text \<open>
  The outcome of handing the call \<open>call\<close> to the transport of \<open>self\<close> and applying the
  raise rule of \<open>HttpService\<close> to what comes back: used to say which call a method
  hands to the transport.
\<close>

definition dispatched ::
  "'a transport \<Rightarrow> 'a client_inst \<Rightarrow> 'a transport_call \<Rightarrow> bool \<Rightarrow> (py_exn + response) option" where
  "dispatched transport self call raise_exception =
     (case transport (self_requestor self) call of
        Inl x \<Rightarrow> Some (Inl (OtherError x))
      | Inr res \<Rightarrow>
          if status_code res \<ge> 300 \<and> raise_exception
          then Some (Inl (ServiceException res))
          else Some (Inr res))"

text \<open>The two exception classes differ in name only: one read as the other.\<close>

fun as_ServiceException :: "py_exn \<Rightarrow> py_exn" where
  "as_ServiceException (HttpClientException res) = ServiceException res"
| "as_ServiceException e = e"

fun as_HttpClientException :: "py_exn \<Rightarrow> py_exn" where
  "as_HttpClientException (ServiceException res) = HttpClientException res"
| "as_HttpClientException e = e"

text \<open>
  The invariant of a session cache in a state with \<open>k\<close> sessions: no session is cached
  under two names, and every cached address is the address of a session.
\<close>

definition one_to_one :: "(string \<rightharpoonup> nat) \<Rightarrow> nat \<Rightarrow> bool" where
  "one_to_one m k \<longleftrightarrow>
     (\<forall>n n' a. m n = Some a \<and> m n' = Some a \<longrightarrow> n = n') \<and> (\<forall>n a. m n = Some a \<longrightarrow> a < k)"

definition cache_ok :: "world \<Rightarrow> bool" where
  "cache_ok w \<longleftrightarrow>
     one_to_one (service_sessions w) (length (sessions w)) \<and>
     one_to_one (client_sessions w) (length (sessions w))"

text \<open>The cache a factory call reads and writes.\<close>

definition cache_of :: "'a invocation \<Rightarrow> world \<Rightarrow> (string \<rightharpoonup> nat)" where
  "cache_of i w = (if is_service i then service_sessions w else client_sessions w)"

text \<open>
  Sessions are created one per cached name: the number of session objects is the number
  of names in the two caches.
\<close>

definition sessions_counted :: "world \<Rightarrow> bool" where
  "sessions_counted w \<longleftrightarrow>
     finite (dom (service_sessions w)) \<and> finite (dom (client_sessions w)) \<and>
     length (sessions w) = card (dom (service_sessions w)) + card (dom (client_sessions w))"

text \<open>The distinct type names \<open>make_service\<close>, and \<open>make_client\<close>, is called on in a run.\<close>

definition service_names :: "'a invocation list \<Rightarrow> string list" where
  "service_names is = remdups (map type_name (filter is_service is))"

definition client_names :: "'a invocation list \<Rightarrow> string list" where
  "client_names is = remdups (map type_name (filter (\<lambda>i. \<not> is_service i) is))"

section \<open>Example values\<close>

text \<open>A transport that answers every call with status 200 and echoes the URL.\<close>

definition ok_transport :: "unit transport" where
  "ok_transport r c = Inr \<lparr>status_code = 200, response_headers = [], response_body = call_url c\<rparr>"

text \<open>A transport that answers every call with status 404.\<close>

definition missing_transport :: "unit transport" where
  "missing_transport r c = Inr \<lparr>status_code = 404, response_headers = [], response_body = []\<rparr>"

text \<open>
  A transport that shows the timeout it is given: the status code of its answer is the
  number of seconds (the connect part of a pair, 0 for \<open>None\<close>).
\<close>

definition timeout_transport :: "unit transport" where
  "timeout_transport r c =
     Inr \<lparr>status_code = (case call_timeout c of TNone \<Rightarrow> 0 | TNum n \<Rightarrow> n | TPair a b \<Rightarrow> a),
          response_headers = [], response_body = call_url c\<rparr>"

definition svc_client :: "unit client_inst" where
  "svc_client = \<lparr>self_url_root = ''http://svc/'', self_requestor = Session 0, self_auth = None,
                  self_timeout = TNum 3\<rparr>"

definition no_kwargs :: call_kwargs where
  "no_kwargs = \<lparr>kw_path = None, kw_path_params = None, kw_query_params = None, kw_data = None,
                 kw_headers = None, kw_timeout = None, kw_raise_exception = None\<rparr>"

definition library_session :: session where
  "library_session = \<lparr>mounts = Map.empty, session_headers = Map.empty\<rparr>"

text \<open>A factory class with the default attributes except for its name and root.\<close>

definition factory_named :: "string \<Rightarrow> string \<Rightarrow> unit factory_cls" where
  "factory_named name root = \<lparr>cls_name = name, cls_service_root = root,
     cls_default_headers = [], cls_timeout = TPair 3 10, cls_max_retires = 3, cls_auth = None\<rparr>"

section \<open>Facts about the string primitives and the substitution loop\<close>

lemma py_find_eq:
  "py_find s c = (if c \<in> set s then int (length (takeWhile (\<lambda>x. x \<noteq> c) s)) else - 1)"
  by (induction s) (auto simp: Let_def)

lemma py_find_neg: "py_find s c < 0 \<longleftrightarrow> c \<notin> set s"
  by (simp add: py_find_eq)

lemma py_find_first:
  "c \<notin> set pre \<Longrightarrow> py_find (pre @ c # post) c = int (length pre)"
  by (induction pre) auto

lemma service_substitute_shape:
  assumes "CHR ''}'' \<notin> set name"
  shows "HttpService_substitute params (pre @ CHR ''{'' # name @ CHR ''}'' # post) (int (length pre)) =
         replace_occ (pre @ CHR ''{'' # name @ CHR ''}'' # post) (CHR ''{'' # name @ ''}'')
           (py_str (dict_get params name))"
proof -
  let ?url = "pre @ CHR ''{'' # name @ CHR ''}'' # post"
  have f: "py_find (name @ CHR ''}'' # post) CHR ''}'' = int (length name)"
    using assms by (rule py_find_first)
  have e: "py_find_from ?url CHR ''}'' (int (length pre)) = int (length pre) + int (length name) + 1"
    by (simp add: py_find_from_def f)
  have r: "py_slice ?url (int (length pre)) (int (length pre) + int (length name) + 1 + 1) =
           CHR ''{'' # name @ ''}''"
  proof -
    have "nat (2 + int (length name)) = Suc (Suc (length name))" by simp
    then show ?thesis by (simp add: py_slice_def slice_bound_def min_def)
  qed
  have n: "py_slice (CHR ''{'' # name @ ''}'') 1 (- 1) = name"
    by (simp add: py_slice_def slice_bound_def)
  show ?thesis
    unfolding HttpService_substitute_def Let_def e r n py_replace_def by simp
qed


lemma count_replace_occ_le:
  "c \<notin> set new \<Longrightarrow> count_list (replace_occ s old new) c \<le> count_list s c"
proof (induction s old new rule: replace_occ.induct)
  case (1 old new)
  then show ?case by simp
next
  case (2 x xs old new)
  show ?case
  proof (cases "old \<noteq> [] \<and> take (length old) (x # xs) = old")
    case True
    have "count_list (x # xs) c =
          count_list (take (length old) (x # xs)) c + count_list (drop (length old) (x # xs)) c"
      by (metis append_take_drop_id count_list_append)
    with True 2 show ?thesis by simp
  next
    case False
    with 2 show ?thesis by auto
  qed
qed


lemma count_split:
  "count_list s c = count_list (take n s) c + count_list (drop n s) c"
  by (metis append_take_drop_id count_list_append)

lemma count_replace_occ_less:
  "c \<notin> set new \<Longrightarrow> c \<in> set old \<Longrightarrow> s = a @ old @ b \<Longrightarrow>
   count_list (replace_occ s old new) c < count_list s c"
proof (induction s old new arbitrary: a rule: replace_occ.induct)
  case (1 old new)
  then show ?case by auto
next
  case (2 x xs old new)
  have ne: "old \<noteq> []" using "2.prems"(2) by auto
  show ?case
  proof (cases "take (length old) (x # xs) = old")
    case True
    have "count_list (replace_occ (drop (length old) (x # xs)) old new) c
          \<le> count_list (drop (length old) (x # xs)) c"
      using "2.prems"(1) by (rule count_replace_occ_le)
    moreover have "0 < count_list old c"
      using "2.prems"(2) count_list_0_iff [of old c] by auto
    moreover have "count_list (x # xs) c = count_list old c + count_list (drop (length old) (x # xs)) c"
      using count_split [of "x # xs" c "length old"] True by simp
    ultimately show ?thesis using True ne "2.prems"(1) by (simp add: count_list_0_iff del: count_list.simps)
  next
    case False
    with "2.prems"(3) obtain a' where a': "a = x # a'"
      by (cases a) auto
    with "2.prems"(3) have "xs = a' @ old @ b" by simp
    with "2.IH"(2) "2.prems"(1,2) False have "count_list (replace_occ xs old new) c < count_list xs c"
      by blast
    with False show ?thesis by simp
  qed
qed

lemma matched_count: "braces_matched s \<Longrightarrow> count_list s CHR ''{'' \<le> count_list s CHR ''}''"
  by (induction s) (auto split: if_splits)

lemma matched_drop: "braces_matched s \<Longrightarrow> braces_matched (drop n s)"
proof (induction s arbitrary: n)
  case Nil
  then show ?case by simp
next
  case (Cons c s)
  then show ?case by (cases n) auto
qed

lemma matched_append:
  "braces_matched a \<Longrightarrow> braces_matched b \<Longrightarrow> braces_matched (a @ b)"
proof (induction a)
  case Nil
  then show ?case by simp
next
  case (Cons c a)
  from Cons.prems(2) have "count_list b CHR ''{'' \<le> count_list b CHR ''}''"
    by (rule matched_count)
  with Cons show ?case by (auto split: if_splits)
qed

lemma matched_no_open: "CHR ''{'' \<notin> set s \<Longrightarrow> braces_matched s"
  by (induction s) auto

lemma balance_replace_occ:
  "CHR ''{'' \<notin> set new \<Longrightarrow> count_list old CHR ''}'' \<le> count_list old CHR ''{'' \<Longrightarrow>
   count_list (replace_occ s old new) CHR ''{'' + count_list s CHR ''}''
     \<le> count_list (replace_occ s old new) CHR ''}'' + count_list s CHR ''{''"
proof (induction s old new rule: replace_occ.induct)
  case (1 old new)
  then show ?case by simp
next
  case (2 x xs old new)
  show ?case
  proof (cases "old \<noteq> [] \<and> take (length old) (x # xs) = old")
    case True
    have o: "count_list (x # xs) CHR ''{'' =
             count_list old CHR ''{'' + count_list (drop (length old) (x # xs)) CHR ''{''"
      using count_split [of "x # xs" "CHR ''{''" "length old"] True by simp
    have c: "count_list (x # xs) CHR ''}'' =
             count_list old CHR ''}'' + count_list (drop (length old) (x # xs)) CHR ''}''"
      using count_split [of "x # xs" "CHR ''}''" "length old"] True by simp
    have n: "count_list new CHR ''{'' = 0"
      using 2 by (simp add: count_list_0_iff)
    from 2 True have "count_list (replace_occ (drop (length old) (x # xs)) old new) CHR ''{''
          + count_list (drop (length old) (x # xs)) CHR ''}''
        \<le> count_list (replace_occ (drop (length old) (x # xs)) old new) CHR ''}''
          + count_list (drop (length old) (x # xs)) CHR ''{''"
      by blast
    with True o c n 2(4) show ?thesis by (simp del: count_list.simps)
  next
    case False
    with 2 have "count_list (replace_occ xs old new) CHR ''{'' + count_list xs CHR ''}''
        \<le> count_list (replace_occ xs old new) CHR ''}'' + count_list xs CHR ''{''"
      by blast
    with False show ?thesis by auto
  qed
qed

lemma matched_replace_occ:
  "CHR ''{'' \<notin> set new \<Longrightarrow> count_list old CHR ''}'' \<le> count_list old CHR ''{'' \<Longrightarrow>
   braces_matched s \<Longrightarrow> braces_matched (replace_occ s old new)"
proof (induction s old new rule: replace_occ.induct)
  case (1 old new)
  then show ?case by simp
next
  case (2 x xs old new)
  show ?case
  proof (cases "old \<noteq> [] \<and> take (length old) (x # xs) = old")
    case True
    from 2(5) have "braces_matched (drop (length old) (x # xs))"
      by (rule matched_drop)
    with 2 True have "braces_matched (replace_occ (drop (length old) (x # xs)) old new)"
      by blast
    with 2(3) True show ?thesis
      by (simp add: matched_append matched_no_open)
  next
    case False
    from 2(5) have m: "braces_matched xs" by simp
    with 2 False have r: "braces_matched (replace_occ xs old new)" by blast
    have b: "count_list (replace_occ xs old new) CHR ''{'' + count_list xs CHR ''}''
        \<le> count_list (replace_occ xs old new) CHR ''}'' + count_list xs CHR ''{''"
      using 2(3,4) by (rule balance_replace_occ)
    show ?thesis
    proof (cases "x = CHR ''{''")
      case True
      with 2(5) have "count_list xs CHR ''{'' < count_list xs CHR ''}''" by simp
      with b have "count_list (replace_occ xs old new) CHR ''{''
          < count_list (replace_occ xs old new) CHR ''}''" by linarith
      with False r True show ?thesis by auto
    next
      case x: False
      with False r show ?thesis by auto
    qed
  qed
qed


lemma param_no_open:
  "\<forall>v\<in>ran params. CHR ''{'' \<notin> set (py_str v) \<Longrightarrow>
   CHR ''{'' \<notin> set (py_str (dict_get params name))"
  by (auto simp: dict_get_def ran_def split: option.splits)

lemma service_loop_terminates:
  assumes vals: "\<forall>v\<in>ran params. CHR ''{'' \<notin> set (py_str v)"
  shows "braces_matched url \<Longrightarrow>
         \<exists>r. HttpService_loop params url (py_find url CHR ''{'') = Some r \<and> CHR ''{'' \<notin> set r"
proof (induction "count_list url CHR ''{''" arbitrary: url rule: less_induct)
  case less
  show ?case
  proof (cases "CHR ''{'' \<in> set url")
    case False
    then have "py_find url CHR ''{'' = - 1" by (simp add: py_find_eq)
    with False show ?thesis by (subst HttpService_loop.simps) simp
  next
    case True
    then obtain pre rest where url: "url = pre @ CHR ''{'' # rest" and pre: "CHR ''{'' \<notin> set pre"
      by (meson split_list_first)
    have "braces_matched (drop (length pre) url)"
      using less.prems by (rule matched_drop)
    then have "count_list rest CHR ''{'' < count_list rest CHR ''}''"
      using url by simp
    then have "CHR ''}'' \<in> set rest"
      using count_list_0_iff [of rest "CHR ''}''"] by auto
    then obtain name post where rest: "rest = name @ CHR ''}'' # post"
      and name: "CHR ''}'' \<notin> set name"
      by (meson split_list_first)
    let ?old = "CHR ''{'' # name @ ''}''"
    let ?new = "py_str (dict_get params name)"
    let ?url' = "replace_occ url ?old ?new"
    have start: "py_find url CHR ''{'' = int (length pre)"
      unfolding url using pre by (rule py_find_first)
    have new: "CHR ''{'' \<notin> set ?new"
      using vals by (rule param_no_open)
    have step: "HttpService_substitute params url (int (length pre)) = ?url'"
      unfolding url rest using name by (rule service_substitute_shape)
    have old: "count_list ?old CHR ''}'' \<le> count_list ?old CHR ''{''"
      using name by simp
    have m: "braces_matched ?url'"
      using new old less.prems by (rule matched_replace_occ)
    have "url = pre @ ?old @ post"
      by (simp add: url rest)
    with new have lt: "count_list ?url' CHR ''{'' < count_list url CHR ''{''"
      by (intro count_replace_occ_less [where a = pre and b = post]) auto
    from less.hyps [OF lt m] obtain r
      where r: "HttpService_loop params ?url' (py_find ?url' CHR ''{'') = Some r"
        and nr: "CHR ''{'' \<notin> set r"
      by blast
    have "HttpService_loop params url (py_find url CHR ''{'') = Some r"
      by (subst HttpService_loop.simps) (simp add: start step r)
    with nr show ?thesis by blast
  qed
qed

lemma matched_fix_slashes:
  "braces_matched path \<Longrightarrow> HttpService_fix_slashes path = Inr p \<Longrightarrow> braces_matched p"
  using matched_drop [of path 1]
  by (auto simp: HttpService_fix_slashes_def Let_def py_last_def matched_append
      split: if_splits sum.splits)

lemma fix_slashes_error:
  "HttpService_fix_slashes path = Inl e \<Longrightarrow> path = ''/'' \<and> e = IndexError"
  by (cases path) (auto simp: HttpService_fix_slashes_def Let_def py_last_def split: if_splits)

section \<open>The two client classes agree\<close>

lemma substitute_eq: "HttpClient_substitute = HttpService_substitute"
  by (intro ext) (simp add: HttpClient_substitute_def HttpService_substitute_def)

lemma fix_slashes_eq: "HttpClient_fix_slashes = HttpService_fix_slashes"
  by (intro ext) (simp add: HttpClient_fix_slashes_def HttpService_fix_slashes_def)

lemma client_loop_service:
  assumes "HttpClient_loop p u s = Some y"
  shows "HttpService_loop p u s = Some y"
proof (rule HttpClient_loop.raw_induct [OF _ assms])
  fix f and p :: "string \<rightharpoonup> pyval" and u s y
  assume IH: "\<And>p u s y. f p u s = Some y \<Longrightarrow> HttpService_loop p u s = Some y"
    and step: "(if 0 \<le> s
                then f p (HttpClient_substitute p u s) (py_find (HttpClient_substitute p u s) CHR ''{'')
                else Some u) = Some y"
  show "HttpService_loop p u s = Some y"
  proof (cases "0 \<le> s")
    case True
    with step IH have "HttpService_loop p (HttpService_substitute p u s)
        (py_find (HttpService_substitute p u s) CHR ''{'') = Some y"
      by (simp add: substitute_eq)
    with True show ?thesis by (subst HttpService_loop.simps) simp
  next
    case False
    with step show ?thesis by (subst HttpService_loop.simps) simp
  qed
qed

lemma service_loop_client:
  assumes "HttpService_loop p u s = Some y"
  shows "HttpClient_loop p u s = Some y"
proof (rule HttpService_loop.raw_induct [OF _ assms])
  fix f and p :: "string \<rightharpoonup> pyval" and u s y
  assume IH: "\<And>p u s y. f p u s = Some y \<Longrightarrow> HttpClient_loop p u s = Some y"
    and step: "(if 0 \<le> s
                then f p (HttpService_substitute p u s) (py_find (HttpService_substitute p u s) CHR ''{'')
                else Some u) = Some y"
  show "HttpClient_loop p u s = Some y"
  proof (cases "0 \<le> s")
    case True
    with step IH have "HttpClient_loop p (HttpClient_substitute p u s)
        (py_find (HttpClient_substitute p u s) CHR ''{'') = Some y"
      by (simp add: substitute_eq)
    with True show ?thesis by (subst HttpClient_loop.simps) simp
  next
    case False
    with step show ?thesis by (subst HttpClient_loop.simps) simp
  qed
qed

lemma loop_eq: "HttpClient_loop = HttpService_loop"
proof (intro ext)
  fix p u s
  show "HttpClient_loop p u s = HttpService_loop p u s"
  proof (cases "HttpClient_loop p u s")
    case None
    show ?thesis
    proof (cases "HttpService_loop p u s")
      case None
      with \<open>HttpClient_loop p u s = None\<close> show ?thesis by simp
    next
      case (Some y)
      from service_loop_client [OF this] None show ?thesis by simp
    qed
  next
    case (Some y)
    from client_loop_service [OF this] Some show ?thesis by simp
  qed
qed

lemma build_url_eq: "HttpClient_build_url = HttpService_build_url"
  unfolding HttpClient_build_url_def HttpService_build_url_def fix_slashes_eq loop_eq ..

lemma build_url_kw_eq: "HttpClient_build_url_kw = HttpService_build_url_kw"
  unfolding HttpClient_build_url_kw_def HttpService_build_url_kw_def build_url_eq ..

lemma request_call_eq: "HttpClient_request_call = HttpService_request_call"
  unfolding HttpClient_request_call_def HttpService_request_call_def ..

lemma set_url_root_eq: "HttpClient_set_url_root = HttpService_set_url_root"
  unfolding HttpClient_set_url_root_def HttpService_set_url_root_def ..

lemma init_eq: "HttpClient_init = HttpService_init"
  unfolding HttpClient_init_def HttpService_init_def set_url_root_eq ..

lemma client_loop_terminates:
  "\<forall>v\<in>ran params. CHR ''{'' \<notin> set (py_str v) \<Longrightarrow> braces_matched url \<Longrightarrow>
   \<exists>r. HttpClient_loop params url (py_find url CHR ''{'') = Some r \<and> CHR ''{'' \<notin> set r"
  unfolding loop_eq by (rule service_loop_terminates)

lemma build_url_kw_errors:
  "HttpService_build_url_kw r p d = Some (Inl e) \<Longrightarrow> e = IndexError \<or> e = TypeError"
  by (auto simp: HttpService_build_url_kw_def HttpService_build_url_def
      split: if_splits sum.splits dest: fix_slashes_error)

section \<open>The session caches\<close>

lemma one_to_one_fresh:
  assumes "one_to_one m k" "m x = None"
  shows "one_to_one (m(x \<mapsto> k)) (Suc k)"
  unfolding one_to_one_def
proof (intro conjI allI impI)
  fix n n' a
  assume h: "(m(x \<mapsto> k)) n = Some a \<and> (m(x \<mapsto> k)) n' = Some a"
  show "n = n'"
  proof (cases "n = x")
    case True
    with h have "a = k" by simp
    with h assms(1) have "n' = x"
      by (cases "n' = x") (auto simp: one_to_one_def)
    with True show ?thesis by simp
  next
    case False
    with h have "m n = Some a" by simp
    with assms(1) have "a < k" by (auto simp: one_to_one_def)
    with h have "n' \<noteq> x" by auto
    with h False assms(1) show ?thesis by (auto simp: one_to_one_def)
  qed
next
  fix n a
  assume "(m(x \<mapsto> k)) n = Some a"
  with assms(1) show "a < Suc k"
    by (cases "n = x") (auto simp: one_to_one_def less_Suc_eq)
qed

lemma one_to_one_mono: "one_to_one m k \<Longrightarrow> one_to_one m (Suc k)"
  by (auto simp: one_to_one_def less_Suc_eq)

lemma service_session_step:
  assumes "cache_ok w" "HttpServiceFactory_session fresh cls w = (a, w')"
  shows "cache_ok w' \<and> service_sessions w \<subseteq>\<^sub>m service_sessions w' \<and>
         client_sessions w' = client_sessions w \<and> service_sessions w' (cls_name cls) = Some a"
proof (cases "service_sessions w (cls_name cls)")
  case None
  with assms(2) have a: "a = length (sessions w)"
    and s: "length (sessions w') = Suc (length (sessions w))"
    and m: "service_sessions w' = (service_sessions w)(cls_name cls \<mapsto> length (sessions w))"
    and c: "client_sessions w' = client_sessions w"
    by (auto simp: HttpServiceFactory_session_def SessionCache_get_def SessionCache_set_def Let_def)
  from assms(1) None show ?thesis
    unfolding cache_ok_def a s m c
    by (auto simp: one_to_one_fresh one_to_one_mono map_le_def)
next
  case (Some s)
  with assms show ?thesis
    by (auto simp: HttpServiceFactory_session_def SessionCache_get_def)
qed

lemma client_session_step:
  assumes "cache_ok w" "HttpClient_session fresh cls w = (a, w')"
  shows "cache_ok w' \<and> client_sessions w \<subseteq>\<^sub>m client_sessions w' \<and>
         service_sessions w' = service_sessions w \<and> client_sessions w' (cls_name cls) = Some a"
proof (cases "client_sessions w (cls_name cls)")
  case None
  with assms(2) have a: "a = length (sessions w)"
    and s: "length (sessions w') = Suc (length (sessions w))"
    and m: "client_sessions w' = (client_sessions w)(cls_name cls \<mapsto> length (sessions w))"
    and c: "service_sessions w' = service_sessions w"
    by (auto simp: HttpClient_session_def HttpClient_SessionCache_get_def
        HttpClient_SessionCache_set_def Let_def)
  from assms(1) None show ?thesis
    unfolding cache_ok_def a s m c
    by (auto simp: one_to_one_fresh one_to_one_mono map_le_def)
next
  case (Some s)
  with assms show ?thesis
    by (auto simp: HttpClient_session_def HttpClient_SessionCache_get_def)
qed

lemma service_init_requestor:
  "HttpService_init r (Some a) auth t = Inr c \<Longrightarrow> self_requestor c = Session a"
  by (auto simp: HttpService_init_def split: sum.splits)

lemma client_init_requestor:
  "HttpClient_init r (Some a) auth t = Inr c \<Longrightarrow> self_requestor c = Session a"
  by (auto simp: HttpClient_init_def split: sum.splits)

lemma invoke_step:
  assumes "cache_ok w" "invoke fresh i w = (r, w')"
  shows "cache_ok w' \<and> service_sessions w \<subseteq>\<^sub>m service_sessions w' \<and>
         client_sessions w \<subseteq>\<^sub>m client_sessions w' \<and>
         (\<forall>c. r = Inr c \<longrightarrow>
            (\<exists>a. cache_of i w' (type_name i) = Some a \<and> self_requestor c = Session a))"
proof (cases i)
  case (MakeService cls kw)
  obtain a w1 where s: "HttpServiceFactory_session fresh cls w = (a, w1)"
    by (cases "HttpServiceFactory_session fresh cls w")
  from service_session_step [OF assms(1) s] assms(2) MakeService s show ?thesis
    by (auto simp: HttpServiceFactory_make_service_def cache_of_def
        dest: service_init_requestor split: sum.splits)
next
  case (MakeClient cls kw)
  obtain a w1 where s: "HttpClient_session fresh cls w = (a, w1)"
    by (cases "HttpClient_session fresh cls w")
  from client_session_step [OF assms(1) s] assms(2) MakeClient s show ?thesis
    by (auto simp: HttpClient_make_client_def cache_of_def
        dest: client_init_requestor split: sum.splits)
qed

lemma cache_of_mono:
  "service_sessions w \<subseteq>\<^sub>m service_sessions w' \<Longrightarrow> client_sessions w \<subseteq>\<^sub>m client_sessions w' \<Longrightarrow>
   cache_of i w n = Some a \<Longrightarrow> cache_of i w' n = Some a"
  by (auto simp: cache_of_def map_le_def dom_def split: if_splits)

lemma run_sessions:
  "cache_ok w \<Longrightarrow> run fresh is w = (rs, w') \<Longrightarrow>
   cache_ok w' \<and> service_sessions w \<subseteq>\<^sub>m service_sessions w' \<and>
   client_sessions w \<subseteq>\<^sub>m client_sessions w' \<and> length rs = length is \<and>
   (\<forall>k<length is. \<forall>c. rs ! k = Inr c \<longrightarrow>
      (\<exists>a. cache_of (is ! k) w' (type_name (is ! k)) = Some a \<and> self_requestor c = Session a))"
proof (induction "is" arbitrary: w rs w')
  case Nil
  then show ?case by simp
next
  case (Cons i "is")
  obtain r w1 where i: "invoke fresh i w = (r, w1)"
    by (cases "invoke fresh i w")
  obtain rs1 w2 where r: "run fresh is w1 = (rs1, w2)"
    by (cases "run fresh is w1")
  from Cons.prems(2) i r have rs: "rs = r # rs1" and w': "w' = w2"
    by auto
  note st = invoke_step [OF Cons.prems(1) i]
  from st have ok1: "cache_ok w1" by simp
  note ih = Cons.IH [OF ok1 r]
  have "\<exists>a. cache_of ((i # is) ! k) w2 (type_name ((i # is) ! k)) = Some a \<and>
            self_requestor c = Session a"
    if k: "k < length (i # is)" and c: "(r # rs1) ! k = Inr c" for k c
  proof (cases k)
    case 0
    with c st obtain a where "cache_of i w1 (type_name i) = Some a" "self_requestor c = Session a"
      by auto
    with ih 0 show ?thesis
      by (auto intro: cache_of_mono)
  next
    case (Suc k')
    with k c ih show ?thesis by auto
  qed
  with st ih show ?case
    unfolding rs w' by (auto intro: map_le_trans)
qed

lemma cache_ok_initial: "cache_ok initial_world"
  by (simp add: cache_ok_def one_to_one_def initial_world_def)

lemma service_session_counted:
  assumes "sessions_counted w" "HttpServiceFactory_session fresh cls w = (a, w')"
  shows "sessions_counted w' \<and>
         dom (service_sessions w') \<subseteq> insert (cls_name cls) (dom (service_sessions w)) \<and>
         client_sessions w' = client_sessions w"
proof (cases "service_sessions w (cls_name cls)")
  case None
  with assms(2) have s: "length (sessions w') = Suc (length (sessions w))"
    and m: "service_sessions w' = (service_sessions w)(cls_name cls \<mapsto> length (sessions w))"
    and c: "client_sessions w' = client_sessions w"
    by (auto simp: HttpServiceFactory_session_def SessionCache_get_def SessionCache_set_def Let_def)
  from None have "cls_name cls \<notin> dom (service_sessions w)" by auto
  with assms(1) show ?thesis
    unfolding sessions_counted_def s m c by simp
next
  case (Some s)
  with assms show ?thesis
    by (auto simp: HttpServiceFactory_session_def SessionCache_get_def)
qed

lemma client_session_counted:
  assumes "sessions_counted w" "HttpClient_session fresh cls w = (a, w')"
  shows "sessions_counted w' \<and>
         dom (client_sessions w') \<subseteq> insert (cls_name cls) (dom (client_sessions w)) \<and>
         service_sessions w' = service_sessions w"
proof (cases "client_sessions w (cls_name cls)")
  case None
  with assms(2) have s: "length (sessions w') = Suc (length (sessions w))"
    and m: "client_sessions w' = (client_sessions w)(cls_name cls \<mapsto> length (sessions w))"
    and c: "service_sessions w' = service_sessions w"
    by (auto simp: HttpClient_session_def HttpClient_SessionCache_get_def
        HttpClient_SessionCache_set_def Let_def)
  from None have "cls_name cls \<notin> dom (client_sessions w)" by auto
  with assms(1) show ?thesis
    unfolding sessions_counted_def s m c by simp
next
  case (Some s)
  with assms show ?thesis
    by (auto simp: HttpClient_session_def HttpClient_SessionCache_get_def)
qed

lemma invoke_counted:
  assumes "sessions_counted w" "invoke fresh i w = (r, w')"
  shows "sessions_counted w' \<and>
         dom (service_sessions w') \<subseteq> dom (service_sessions w) \<union> set (service_names [i]) \<and>
         dom (client_sessions w') \<subseteq> dom (client_sessions w) \<union> set (client_names [i])"
proof (cases i)
  case (MakeService cls kw)
  obtain a w1 where s: "HttpServiceFactory_session fresh cls w = (a, w1)"
    by (cases "HttpServiceFactory_session fresh cls w")
  from assms(2) MakeService s have "w' = w1"
    by (auto simp: HttpServiceFactory_make_service_def split: sum.splits)
  with service_session_counted [OF assms(1) s] MakeService show ?thesis
    by (auto simp: service_names_def client_names_def)
next
  case (MakeClient cls kw)
  obtain a w1 where s: "HttpClient_session fresh cls w = (a, w1)"
    by (cases "HttpClient_session fresh cls w")
  from assms(2) MakeClient s have "w' = w1"
    by (auto simp: HttpClient_make_client_def split: sum.splits)
  with client_session_counted [OF assms(1) s] MakeClient show ?thesis
    by (auto simp: service_names_def client_names_def)
qed

lemma names_Cons:
  "set (service_names (i # is)) = set (service_names [i]) \<union> set (service_names is)"
  "set (client_names (i # is)) = set (client_names [i]) \<union> set (client_names is)"
  by (auto simp: service_names_def client_names_def)

lemma run_counted:
  "sessions_counted w \<Longrightarrow> run fresh is w = (rs, w') \<Longrightarrow>
   sessions_counted w' \<and>
   dom (service_sessions w') \<subseteq> dom (service_sessions w) \<union> set (service_names is) \<and>
   dom (client_sessions w') \<subseteq> dom (client_sessions w) \<union> set (client_names is)"
proof (induction "is" arbitrary: w rs w')
  case Nil
  then show ?case by simp
next
  case (Cons i "is")
  obtain r w1 where i: "invoke fresh i w = (r, w1)"
    by (cases "invoke fresh i w")
  obtain rs1 w2 where r: "run fresh is w1 = (rs1, w2)"
    by (cases "run fresh is w1")
  from Cons.prems(2) i r have w': "w' = w2"
    by auto
  note st = invoke_counted [OF Cons.prems(1) i]
  from st have "sessions_counted w1" by simp
  note ih = Cons.IH [OF this r]
  from st ih names_Cons [of i "is"] show ?case
    unfolding w' by blast
qed

lemma sessions_counted_initial: "sessions_counted initial_world"
  by (simp add: sessions_counted_def initial_world_def)

lemma sessions_bounded_by_type_names:
  "length (sessions (snd (run fresh is initial_world))) \<le>
   length (service_names is) + length (client_names is)"
proof -
  obtain rs w where run: "run fresh is initial_world = (rs, w)"
    by (cases "run fresh is initial_world")
  note R = run_counted [OF sessions_counted_initial run]
  from R have "dom (service_sessions w) \<subseteq> set (service_names is)"
    and "dom (client_sessions w) \<subseteq> set (client_names is)"
    by (simp_all add: initial_world_def)
  then have "card (dom (service_sessions w)) \<le> card (set (service_names is))"
    and "card (dom (client_sessions w)) \<le> card (set (client_names is))"
    by (simp_all add: card_mono)
  moreover have "card (set (service_names is)) = length (service_names is)"
    and "card (set (client_names is)) = length (client_names is)"
    by (simp_all add: service_names_def client_names_def length_remdups_card_conv)
  ultimately show ?thesis
    using R run by (simp add: sessions_counted_def)
qed

section \<open>URL building\<close>

subsection \<open>A placeholder without a value\<close>

lemma absent_parameter_string:
  "path_params name = None \<or> path_params name = Some PyNone \<Longrightarrow>
   py_str (dict_get path_params name) = ''None''"
  by (auto simp: dict_get_def)

text \<open>
  Claim C1. The specification has a placeholder whose name is absent from the mapping, or
  mapped to \<open>None\<close>, replaced by the empty string, so that root \<open>http://svc/\<close> and
  template \<open>/x/{id}/\<close> without parameters give \<open>http://svc/x//\<close>. The code applies
  \<open>str\<close> to the result of \<open>path_params.get\<close> before it tests it, so the test
  \<open>param if param else ''\<close> sees the non-empty string \<open>None\<close>: both classes return
  \<open>http://svc/x/None/\<close>, for the absent name and for the name mapped to \<open>None\<close>.
\<close>

theorem build_url_missing_parameter_gives_None:
  "HttpService_build_url ''http://svc/'' ''/x/{id}/'' Map.empty = Some (Inr ''http://svc/x/None/'') \<and>
   HttpService_build_url ''http://svc/'' ''/x/{id}/'' [''id'' \<mapsto> PyNone]
     = Some (Inr ''http://svc/x/None/'') \<and>
   HttpClient_build_url ''http://svc/'' ''/x/{id}/'' Map.empty = Some (Inr ''http://svc/x/None/'') \<and>
   HttpClient_build_url ''http://svc/'' ''/x/{id}/'' [''id'' \<mapsto> PyNone]
     = Some (Inr ''http://svc/x/None/'') \<and>
   HttpService_build_url ''http://svc/'' ''/x/{id}/'' Map.empty \<noteq> Some (Inr ''http://svc/x//'')"
  by code_simp

subsection \<open>Leading and trailing separators\<close>

text \<open>
  For every path other than the single separator the code normalizes the path as the
  specification words it, and the example of the specification holds.
\<close>

lemma fix_slashes_spec:
  "path \<noteq> ''/'' \<Longrightarrow> HttpService_fix_slashes path = Inr (spec_normalized_path path)"
  by (cases path)
    (auto simp: HttpService_fix_slashes_def spec_normalized_path_def py_last_def Let_def py_find_eq)

lemma build_url_from_normalized_path:
  "path \<noteq> ''/'' \<Longrightarrow>
   HttpService_build_url url_root path path_params =
   map_option Inr (HttpService_loop path_params (url_root @ spec_normalized_path path)
     (py_find (url_root @ spec_normalized_path path) CHR ''{''))"
  by (simp add: HttpService_build_url_def fix_slashes_spec)

lemma build_url_query_example:
  "HttpService_build_url ''http://svc/'' ''/search?q={q}'' [''q'' \<mapsto> PyVal ''a'']
     = Some (Inr ''http://svc/search?q=a'') \<and>
   HttpService_build_url ''http://svc/'' ''/x/{id}/'' [''id'' \<mapsto> PyVal ''7'']
     = Some (Inr ''http://svc/x/7/'')"
  by code_simp

text \<open>
  Claim C3. The specification normalizes every non-empty path: a single leading \<open>/\<close> is
  stripped, a trailing \<open>/\<close> is appended exactly when the stripped path is non-empty, does
  not end with \<open>/\<close> and contains no \<open>?\<close>, and the URL before substitution is the root
  followed by the normalized path. For the path \<open>/\<close> the stripped path is empty, so the
  specification appends nothing and the URL is the root. The code guards \<open>path[0]\<close> with
  \<open>if path:\<close> but reads \<open>path[-1]\<close> after the strip without a guard: on \<open>/\<close> both
  classes raise \<open>IndexError\<close> where the specification gives the root.
\<close>

theorem build_url_single_slash_against_spec:
  "spec_normalized_path ''/'' = [] \<and>
   HttpService_fix_slashes ''/'' = Inl IndexError \<and>
   HttpClient_fix_slashes ''/'' = Inl IndexError \<and>
   HttpService_build_url ''http://svc/'' ''/'' Map.empty = Some (Inl IndexError) \<and>
   HttpService_build_url ''http://svc/'' ''/'' Map.empty \<noteq> Some (Inr (''http://svc/'' @ spec_normalized_path ''/''))"
  by (simp add: HttpService_build_url_def HttpService_fix_slashes_def
      HttpClient_fix_slashes_def py_last_def spec_normalized_path_def)

text \<open>
  Claim C9. For every client, \<open>_build_url\<close> called with the path \<open>/\<close> raises
  \<open>IndexError\<close> instead of returning a URL, whatever the root and the parameters: the
  leading separator is stripped and the last character of the empty string is read. So
  do \<open>make_request\<close> and every verb method called with that path. (With path
  parameters named \<open>self\<close> or \<open>path\<close> the call of \<open>_build_url\<close> itself raises
  \<open>TypeError\<close>; no URL is returned then either.)
\<close>

theorem build_url_single_slash_IndexError:
  "HttpService_build_url url_root ''/'' path_params = Some (Inl IndexError) \<and>
   HttpClient_build_url url_root ''/'' path_params = Some (Inl IndexError) \<and>
   HttpService_make_request transport self method ''/'' None query_params data headers timeout
     raise_exception = Some (Inl IndexError) \<and>
   HttpClient_make_request transport self method ''/'' None query_params data headers timeout
     raise_exception = Some (Inl IndexError) \<and>
   HttpService_get transport self ''/'' None query_params headers raise_exception
     = Some (Inl IndexError) \<and>
   HttpService_post transport self ''/'' None data headers raise_exception
     = Some (Inl IndexError) \<and>
   HttpService_put transport self ''/'' None data headers raise_exception
     = Some (Inl IndexError) \<and>
   HttpService_patch transport self ''/'' None data headers raise_exception
     = Some (Inl IndexError) \<and>
   HttpService_delete transport self ''/'' None headers raise_exception
     = Some (Inl IndexError) \<and>
   (\<exists>e. HttpService_make_request transport self method ''/'' params query_params data headers
          timeout raise_exception = Some (Inl e) \<and> (e = IndexError \<or> e = TypeError)) \<and>
   HttpClient_get transport self ''/'' None query_params headers raise_exception
     = Some (Inl IndexError) \<and>
   HttpClient_post transport self ''/'' None data headers raise_exception
     = Some (Inl IndexError) \<and>
   HttpClient_put transport self ''/'' None data headers raise_exception
     = Some (Inl IndexError) \<and>
   HttpClient_patch transport self ''/'' None data headers raise_exception
     = Some (Inl IndexError) \<and>
   HttpClient_delete transport self ''/'' None headers raise_exception
     = Some (Inl IndexError) \<and>
   (\<exists>e. HttpClient_make_request transport self method ''/'' params query_params data headers
          timeout raise_exception = Some (Inl e) \<and> (e = IndexError \<or> e = TypeError))"
  by (simp add: HttpService_build_url_def HttpService_fix_slashes_def
      HttpClient_build_url_def HttpClient_fix_slashes_def py_last_def
      HttpService_make_request_def HttpClient_make_request_def
      HttpService_build_url_kw_def HttpClient_build_url_kw_def
      HttpService_get_def HttpService_post_def HttpService_put_def HttpService_patch_def
      HttpService_delete_def
      HttpClient_get_def HttpClient_post_def HttpClient_put_def HttpClient_patch_def
      HttpClient_delete_def)

subsection \<open>Termination of the substitution loop\<close>

text \<open>
  Claim C7. When every \<open>{\<close> of the root URL and of the path template has a matching
  \<open>}\<close> (a closing brace of its own after it, as \<open>braces_matched\<close> says) and no
  parameter value contains \<open>{\<close> in its string form, the substitution loop of
  \<open>_build_url\<close> terminates, in both classes, and the URL returned contains no \<open>{\<close>.
  The one call that returns no URL under these conditions is the path \<open>/\<close>, which
  raises before the loop is reached.
\<close>

theorem build_url_terminates:
  assumes "braces_matched url_root" and "braces_matched path"
    and "\<forall>v\<in>ran path_params. CHR ''{'' \<notin> set (py_str v)"
  shows "(\<exists>url. HttpService_build_url url_root path path_params = Some (Inr url) \<and>
               HttpClient_build_url url_root path path_params = Some (Inr url) \<and>
               CHR ''{'' \<notin> set url) \<or>
         (path = ''/'' \<and> HttpService_build_url url_root path path_params = Some (Inl IndexError))"
proof (cases "HttpService_fix_slashes path")
  case (Inl e)
  then have "path = ''/''" and "e = IndexError"
    by (auto dest: fix_slashes_error)
  with Inl show ?thesis
    by (simp add: HttpService_build_url_def)
next
  case (Inr p)
  with assms(2) have "braces_matched p"
    by (rule matched_fix_slashes)
  with assms(1) have "braces_matched (url_root @ p)"
    by (rule matched_append)
  with assms(3) obtain r
    where "HttpService_loop path_params (url_root @ p) (py_find (url_root @ p) CHR ''{'') = Some r"
      and "CHR ''{'' \<notin> set r"
    using service_loop_terminates by blast
  with Inr show ?thesis
    by (simp add: HttpService_build_url_def build_url_eq)
qed

theorem build_url_terminates_witness:
  "braces_matched ''http://svc/'' \<and> braces_matched ''/x/{id}/'' \<and>
   ran [''id'' \<mapsto> PyVal ''7''] = {PyVal ''7''} \<and> CHR ''{'' \<notin> set (py_str (PyVal ''7'')) \<and>
   (\<exists>url. HttpService_build_url ''http://svc/'' ''/x/{id}/'' [''id'' \<mapsto> PyVal ''7''] = Some (Inr url) \<and>
          CHR ''{'' \<notin> set url)"
proof -
  have h1: "braces_matched ''http://svc/''" by simp
  have h2: "braces_matched ''/x/{id}/''" by simp
  have h3: "\<forall>v\<in>ran [''id'' \<mapsto> PyVal ''7'']. CHR ''{'' \<notin> set (py_str v)" by simp
  have "''/x/{id}/'' \<noteq> ''/''" by simp
  with build_url_terminates [OF h1 h2 h3] h1 h2 show ?thesis by auto
qed

text \<open>
  The hypothesis on the braces cannot be weakened to "some \<open>}\<close> occurs after each
  \<open>{\<close>". In \<open>{b}x{a{b}\<close> the last \<open>}\<close> is the only one after two opening braces; the
  first round replaces both occurrences of \<open>{b}\<close>, the \<open>{\<close> before \<open>a\<close> is left with no
  \<open>}\<close> after it, \<open>find\<close> returns \<open>-1\<close>, the slice to replace is empty, and every
  further round inserts \<open>None\<close> between all characters: the loop never returns.
\<close>

lemma substitute_without_close:
  assumes "CHR ''}'' \<notin> set url" and "0 \<le> start"
  shows "HttpService_substitute Map.empty url start = ''None'' @ concat (map (\<lambda>c. c # ''None'') url)"
proof -
  have e: "py_find_from url CHR ''}'' start = - 1"
    using assms(1) by (auto simp: py_find_from_def py_find_eq dest: in_set_dropD)
  have r: "py_slice url start (- 1 + 1) = []"
    using assms(2) by (simp add: py_slice_def slice_bound_def)
  have n: "py_slice [] 1 (- 1) = []"
    by (simp add: py_slice_def slice_bound_def)
  show ?thesis
    unfolding HttpService_substitute_def Let_def e r n py_replace_def
    by (simp add: dict_get_def)
qed

lemma inserted_None_braces:
  "set (''None'' @ concat (map (\<lambda>c. c # ''None'') url)) = set url \<union> set ''None''"
  by (induction url) auto

lemma loop_without_close_diverges:
  assumes "HttpService_loop p u s = Some y"
  shows "\<not> (p = Map.empty \<and> CHR ''{'' \<in> set u \<and> CHR ''}'' \<notin> set u \<and> s = py_find u CHR ''{'')"
proof (rule HttpService_loop.raw_induct [OF _ assms])
  fix f and p :: "string \<rightharpoonup> pyval" and u s y
  assume IH: "\<And>p u s y. f p u s = Some y \<Longrightarrow>
      \<not> (p = Map.empty \<and> CHR ''{'' \<in> set u \<and> CHR ''}'' \<notin> set u \<and> s = py_find u CHR ''{'')"
    and step: "(if 0 \<le> s
                then f p (HttpService_substitute p u s) (py_find (HttpService_substitute p u s) CHR ''{'')
                else Some u) = Some y"
  show "\<not> (p = Map.empty \<and> CHR ''{'' \<in> set u \<and> CHR ''}'' \<notin> set u \<and> s = py_find u CHR ''{'')"
  proof
    assume a: "p = Map.empty \<and> CHR ''{'' \<in> set u \<and> CHR ''}'' \<notin> set u \<and> s = py_find u CHR ''{''"
    then have s: "0 \<le> s" by (simp add: py_find_eq)
    let ?u = "''None'' @ concat (map (\<lambda>c. c # ''None'') u)"
    from a s have u': "HttpService_substitute p u s = ?u"
      by (simp add: substitute_without_close)
    from step s u' have "f p ?u (py_find ?u CHR ''{'') = Some y" by simp
    from IH [OF this] a show False
      unfolding inserted_None_braces by simp
  qed
qed

lemma shared_close_brace_diverges:
  "HttpService_build_url ''http://svc/'' ''{b}x{a{b}'' Map.empty = None"
proof -
  have p: "HttpService_fix_slashes ''{b}x{a{b}'' = Inr ''{b}x{a{b}/''"
    by code_simp
  have s0: "py_find (''http://svc/'' @ ''{b}x{a{b}/'') CHR ''{'' = 11"
    by code_simp
  have u1: "HttpService_substitute Map.empty (''http://svc/'' @ ''{b}x{a{b}/'') 11 = ''http://svc/Nonex{aNone/''"
    by code_simp
  have "HttpService_loop Map.empty ''http://svc/Nonex{aNone/'' (py_find ''http://svc/Nonex{aNone/'' CHR ''{'') = None"
  proof (cases "HttpService_loop Map.empty ''http://svc/Nonex{aNone/'' (py_find ''http://svc/Nonex{aNone/'' CHR ''{'')")
    case None
    then show ?thesis .
  next
    case (Some y)
    from loop_without_close_diverges [OF this] show ?thesis by simp
  qed
  then have "HttpService_loop Map.empty (''http://svc/'' @ ''{b}x{a{b}/'') 11 = None"
    by (subst HttpService_loop.simps) (simp only: u1, simp)
  then show ?thesis
    by (simp only: HttpService_build_url_def p s0 sum.case, simp)
qed

section \<open>Root URL normalization\<close>

text \<open>
  For every non-empty root the setter of both classes normalizes the root as the
  specification words it; the root it stores is non-empty, ends with \<open>/\<close>, is left
  unchanged by a second normalization, and is the root of the client constructed.
\<close>

lemma set_url_root_spec:
  "value \<noteq> [] \<Longrightarrow> HttpService_set_url_root value = Inr (spec_normalized_root value)"
  by (simp add: HttpService_set_url_root_def spec_normalized_root_def py_last_def)

lemma set_url_root_normalizes:
  assumes "value \<noteq> []"
  shows "HttpService_set_url_root value =
           Inr (if last value = CHR ''/'' then value else value @ ''/'') \<and>
         HttpClient_set_url_root value = HttpService_set_url_root value \<and>
         (\<exists>r. HttpService_set_url_root value = Inr r \<and> r \<noteq> [] \<and> last r = CHR ''/'' \<and>
              HttpService_set_url_root r = Inr r \<and>
              (\<exists>c. HttpService_init value session auth timeout = Inr c \<and> self_url_root c = r))"
  using assms
  by (auto simp: HttpService_set_url_root_def HttpClient_set_url_root_def py_last_def
      HttpService_init_def)

lemma set_url_root_examples:
  "HttpService_set_url_root ''http://svc'' = Inr ''http://svc/'' \<and>
   HttpService_set_url_root ''http://svc/'' = Inr ''http://svc/'' \<and>
   HttpClient_set_url_root ''http://svc'' = Inr ''http://svc/'' \<and>
   HttpClient_set_url_root ''http://svc/'' = Inr ''http://svc/''"
  by (simp add: HttpService_set_url_root_def HttpClient_set_url_root_def py_last_def)

text \<open>
  Claim C6. The specification has the root normalized at construction: a trailing \<open>/\<close>
  is appended when the given root does not end with one, the root is kept when it does,
  so that every stored root ends with \<open>/\<close>. The empty string does not end with \<open>/\<close>,
  so the specification gives the root \<open>/\<close> for it. The setter, whose comment is
  "Force trailing slash", reads \<open>value[-1]\<close> without a guard: on the empty string, the
  default root of both factories, both classes raise \<open>IndexError\<close> and no root is
  stored.
\<close>

theorem set_url_root_empty_raises:
  "spec_normalized_root [] = ''/'' \<and>
   HttpService_set_url_root [] = Inl IndexError \<and>
   HttpClient_set_url_root [] = Inl IndexError \<and>
   HttpService_set_url_root [] \<noteq> Inr (spec_normalized_root [])"
  by (simp add: HttpService_set_url_root_def HttpClient_set_url_root_def py_last_def
      spec_normalized_root_def)

text \<open>
  Claim C10. Constructing a client of either class with the empty root raises
  \<open>IndexError\<close> in the root normalization. A factory class whose root is the empty
  string (the default of the class attribute) constructs no client: \<open>make_service\<close> and
  \<open>make_client\<close> raise, and what they raise is that \<open>IndexError\<close> when the class has no
  auth class (the default).
\<close>

theorem empty_root_IndexError:
  "HttpService_init [] session auth timeout = Inl IndexError \<and>
   HttpClient_init [] session auth timeout = Inl IndexError \<and>
   (cls_service_root cls = [] \<longrightarrow>
      (\<exists>e. fst (HttpServiceFactory_make_service fresh cls auth_kwargs w) = Inl e) \<and>
      (\<exists>e. fst (HttpClient_make_client fresh cls auth_kwargs w) = Inl e) \<and>
      (cls_auth cls = None \<longrightarrow>
         fst (HttpServiceFactory_make_service fresh cls auth_kwargs w) = Inl IndexError \<and>
         fst (HttpClient_make_client fresh cls auth_kwargs w) = Inl IndexError))"
  by (auto simp: HttpService_init_def HttpClient_init_def HttpService_set_url_root_def
      HttpClient_set_url_root_def py_last_def HttpServiceFactory_make_service_def
      HttpClient_make_client_def make_auth_def split: prod.splits sum.splits option.splits)

theorem empty_root_IndexError_witness:
  "cls_service_root (factory_named ''Orders'' []) = [] \<and>
   cls_auth (factory_named ''Orders'' []) = None \<and>
   fst (HttpServiceFactory_make_service library_session (factory_named ''Orders'' []) None
          initial_world) = Inl IndexError \<and>
   fst (HttpClient_make_client library_session (factory_named ''Orders'' []) None
          initial_world) = Inl IndexError"
  using empty_root_IndexError [of None "None :: unit option" TNone "factory_named ''Orders'' []"
      library_session None initial_world]
  by (simp add: factory_named_def)

section \<open>Dispatch\<close>

text \<open>
  Claim C2. Once the URL is built and the transport has returned a response,
  \<open>make_request\<close> raises the service error carrying that response if and only if the
  status code is at least 300 and raising is enabled, and returns the response of the
  transport unchanged in every other case. \<open>HttpClient\<close> does the same with its own
  exception class.
\<close>

theorem make_request_raises_iff:
  assumes "HttpService_build_url_kw (self_url_root self) path
             (case path_params of Some d \<Rightarrow> d | None \<Rightarrow> Map.empty) = Some (Inr url)"
    and "transport (self_requestor self)
           (HttpService_request_call self method url query_params data headers timeout) = Inr res"
  shows "HttpService_make_request transport self method path path_params query_params data headers
           timeout raise_exception =
         Some (if status_code res \<ge> 300 \<and> raise_exception
               then Inl (ServiceException res) else Inr res) \<and>
         ((\<exists>r. HttpService_make_request transport self method path path_params query_params data
                headers timeout raise_exception = Some (Inl (ServiceException r)))
            \<longleftrightarrow> status_code res \<ge> 300 \<and> raise_exception) \<and>
         HttpClient_make_request transport self method path path_params query_params data headers
           timeout raise_exception =
         Some (if status_code res \<ge> 300 \<and> raise_exception
               then Inl (HttpClientException res) else Inr res)"
  using assms
  by (simp add: HttpService_make_request_def HttpClient_make_request_def build_url_kw_eq
      request_call_eq)

theorem make_request_raises_iff_witness:
  "HttpService_build_url_kw (self_url_root svc_client) ''/x/{id}/''
     (case Some [''id'' \<mapsto> PyVal ''7''] of Some d \<Rightarrow> d | None \<Rightarrow> Map.empty)
     = Some (Inr ''http://svc/x/7/'') \<and>
   HttpService_make_request missing_transport svc_client ''GET'' ''/x/{id}/''
     (Some [''id'' \<mapsto> PyVal ''7'']) None None None TNone True =
     Some (Inl (ServiceException \<lparr>status_code = 404, response_headers = [], response_body = []\<rparr>)) \<and>
   HttpService_make_request missing_transport svc_client ''GET'' ''/x/{id}/''
     (Some [''id'' \<mapsto> PyVal ''7'']) None None None TNone False =
     Some (Inr \<lparr>status_code = 404, response_headers = [], response_body = []\<rparr>)"
proof -
  have u: "HttpService_build_url_kw (self_url_root svc_client) ''/x/{id}/''
     (case Some [''id'' \<mapsto> PyVal ''7''] of Some d \<Rightarrow> d | None \<Rightarrow> Map.empty)
     = Some (Inr ''http://svc/x/7/'')"
    by code_simp
  have t: "missing_transport (self_requestor svc_client)
      (HttpService_request_call svc_client ''GET'' ''http://svc/x/7/'' None None None TNone) =
      Inr \<lparr>status_code = 404, response_headers = [], response_body = []\<rparr>"
    by (simp add: missing_transport_def)
  note call = make_request_raises_iff [where transport = missing_transport and self = svc_client
      and path_params = "Some [''id'' \<mapsto> PyVal ''7'']", OF u t]
  from call [of True] call [of False] u show ?thesis by simp
qed

text \<open>
  Claim C4. \<open>HttpClient\<close> and \<open>HttpService\<close> behave alike: for every input
  \<open>_build_url\<close> gives the same result in both, \<open>make_request\<close> passes the same
  arguments to the transport, and the outcomes of \<open>make_request\<close> are the same once
  the exception class of one is read as the exception class of the other.
\<close>

theorem client_service_equivalent:
  "HttpClient_build_url url_root path path_params = HttpService_build_url url_root path path_params \<and>
   HttpClient_request_call self method url query_params data headers timeout =
     HttpService_request_call self method url query_params data headers timeout \<and>
   map_option (map_sum as_ServiceException id)
     (HttpClient_make_request transport self method path params query_params data headers timeout
        raise_exception) =
     HttpService_make_request transport self method path params query_params data headers timeout
        raise_exception \<and>
   map_option (map_sum as_HttpClientException id)
     (HttpService_make_request transport self method path params query_params data headers timeout
        raise_exception) =
     HttpClient_make_request transport self method path params query_params data headers timeout
        raise_exception"
  by (auto simp: build_url_eq request_call_eq HttpClient_make_request_def
      HttpService_make_request_def build_url_kw_eq option.map_comp
      split: option.splits sum.splits dest!: build_url_kw_errors)

section \<open>Timeouts\<close>

text \<open>
  A shortcut called with a \<open>timeout\<close> keyword raises \<open>TypeError\<close> and reaches no
  transport, where the same call without the keyword returns the response. And
  \<open>make_request\<close> given the timeout 0 hands the default of the client (3 here) to the
  transport.
\<close>

theorem shortcut_rejects_timeout:
  "HttpService_get_kwargs ok_transport svc_client
     (no_kwargs\<lparr>kw_path := Some ''/x/'', kw_timeout := Some (TNum 5)\<rparr>) = Some (Inl TypeError) \<and>
   HttpService_get_kwargs ok_transport svc_client (no_kwargs\<lparr>kw_path := Some ''/x/''\<rparr>) =
     Some (Inr \<lparr>status_code = 200, response_headers = [], response_body = ''http://svc/x/''\<rparr>) \<and>
   HttpService_make_request timeout_transport svc_client ''GET'' ''/x/'' None None None None
     (TNum 0) False =
     Some (Inr \<lparr>status_code = 3, response_headers = [], response_body = ''http://svc/x/''\<rparr>)"
  by code_simp

text \<open>
  Claim C8, as the code has it. \<open>make_request\<close> takes a per-call timeout, and the
  timeout of the call it hands to the transport is that timeout when one is given and is
  not zero (when it is true in Python's sense), else the default of the client;
  \<open>HttpClient\<close> hands over the same call. The verb shortcuts (\<open>get\<close>, \<open>post\<close>,
  \<open>put\<close>, \<open>patch\<close>, \<open>delete\<close>) have no timeout parameter: the call each hands to
  the transport has the default timeout of the client, and a call that supplies a
  \<open>timeout\<close> keyword to a shortcut raises \<open>TypeError\<close>.
\<close>

theorem timeout_resolution:
  assumes "HttpService_build_url_kw (self_url_root self) path
             (case path_params of Some d \<Rightarrow> d | None \<Rightarrow> Map.empty) = Some (Inr url)"
  shows "HttpService_make_request transport self verb path path_params query_params data headers
           timeout raise_exception =
         dispatched transport self
           \<lparr>call_method = verb, call_url = url, call_params = query_params, call_data = data,
            call_headers = headers,
            call_timeout = (if truthy timeout then timeout else self_timeout self),
            call_auth = self_auth self\<rparr> raise_exception \<and>
         HttpClient_make_request transport self verb path path_params query_params data headers
           timeout raise_exception =
         map_option (map_sum as_HttpClientException id)
           (dispatched transport self
              \<lparr>call_method = verb, call_url = url, call_params = query_params, call_data = data,
               call_headers = headers,
               call_timeout = (if truthy timeout then timeout else self_timeout self),
               call_auth = self_auth self\<rparr> raise_exception) \<and>
         HttpService_get transport self path path_params query_params headers raise_exception =
         dispatched transport self
           \<lparr>call_method = ''GET'', call_url = url, call_params = query_params, call_data = None,
            call_headers = headers, call_timeout = self_timeout self,
            call_auth = self_auth self\<rparr> raise_exception \<and>
         HttpService_post transport self path path_params data headers raise_exception =
         dispatched transport self
           \<lparr>call_method = ''POST'', call_url = url, call_params = None, call_data = data,
            call_headers = headers, call_timeout = self_timeout self,
            call_auth = self_auth self\<rparr> raise_exception \<and>
         HttpService_put transport self path path_params data headers raise_exception =
         dispatched transport self
           \<lparr>call_method = ''PUT'', call_url = url, call_params = None, call_data = data,
            call_headers = headers, call_timeout = self_timeout self,
            call_auth = self_auth self\<rparr> raise_exception \<and>
         HttpService_patch transport self path path_params data headers raise_exception =
         dispatched transport self
           \<lparr>call_method = ''PATCH'', call_url = url, call_params = None, call_data = data,
            call_headers = headers, call_timeout = self_timeout self,
            call_auth = self_auth self\<rparr> raise_exception \<and>
         HttpService_delete transport self path path_params headers raise_exception =
         dispatched transport self
           \<lparr>call_method = ''DELETE'', call_url = url, call_params = None, call_data = None,
            call_headers = headers, call_timeout = self_timeout self,
            call_auth = self_auth self\<rparr> raise_exception \<and>
         (kw_timeout kw \<noteq> None \<longrightarrow>
            HttpService_get_kwargs transport self kw = Some (Inl TypeError) \<and>
            HttpService_post_kwargs transport self kw = Some (Inl TypeError) \<and>
            HttpService_put_kwargs transport self kw = Some (Inl TypeError) \<and>
            HttpService_patch_kwargs transport self kw = Some (Inl TypeError) \<and>
            HttpService_delete_kwargs transport self kw = Some (Inl TypeError))"
proof -
  have service: "HttpService_make_request transport self v path path_params q d h t raise_exception =
      dispatched transport self
        \<lparr>call_method = v, call_url = url, call_params = q, call_data = d, call_headers = h,
         call_timeout = (if truthy t then t else self_timeout self),
         call_auth = self_auth self\<rparr> raise_exception" for v q d h t
    using assms
    by (simp add: HttpService_make_request_def HttpService_request_call_def dispatched_def)
  have client: "HttpClient_make_request transport self v path path_params q d h t raise_exception =
      map_option (map_sum as_HttpClientException id)
        (dispatched transport self
           \<lparr>call_method = v, call_url = url, call_params = q, call_data = d, call_headers = h,
            call_timeout = (if truthy t then t else self_timeout self),
            call_auth = self_auth self\<rparr> raise_exception)" for v q d h t
    using assms
    by (simp add: HttpClient_make_request_def HttpClient_request_call_def dispatched_def
        build_url_kw_eq split: sum.splits)
  show ?thesis
    by (simp add: service client HttpService_get_def HttpService_post_def
        HttpService_put_def HttpService_patch_def HttpService_delete_def
        HttpService_get_kwargs_def HttpService_post_kwargs_def HttpService_put_kwargs_def
        HttpService_patch_kwargs_def HttpService_delete_kwargs_def)
qed

theorem timeout_resolution_witness:
  "HttpService_build_url_kw (self_url_root svc_client) ''/x/''
     (case None of Some d \<Rightarrow> d | None \<Rightarrow> Map.empty) = Some (Inr ''http://svc/x/'') \<and>
   HttpService_make_request timeout_transport svc_client ''GET'' ''/x/'' None None None None
     (TNum 5) False =
     Some (Inr \<lparr>status_code = 5, response_headers = [], response_body = ''http://svc/x/''\<rparr>) \<and>
   HttpService_make_request timeout_transport svc_client ''GET'' ''/x/'' None None None None
     TNone False =
     Some (Inr \<lparr>status_code = 3, response_headers = [], response_body = ''http://svc/x/''\<rparr>) \<and>
   HttpService_post timeout_transport svc_client ''/x/'' None None None False =
     Some (Inr \<lparr>status_code = 3, response_headers = [], response_body = ''http://svc/x/''\<rparr>) \<and>
   kw_timeout (no_kwargs\<lparr>kw_timeout := Some (TPair 1 2)\<rparr>) \<noteq> None \<and>
   HttpService_delete_kwargs timeout_transport svc_client
     (no_kwargs\<lparr>kw_timeout := Some (TPair 1 2)\<rparr>) = Some (Inl TypeError)"
proof -
  have u: "HttpService_build_url_kw (self_url_root svc_client) ''/x/''
     (case None of Some d \<Rightarrow> d | None \<Rightarrow> Map.empty) = Some (Inr ''http://svc/x/'')"
    by code_simp
  note call = timeout_resolution [where transport = timeout_transport and self = svc_client
      and path_params = None and verb = "''GET''" and raise_exception = False
      and query_params = None and data = None and headers = None
      and kw = "no_kwargs\<lparr>kw_timeout := Some (TPair 1 2)\<rparr>", OF u]
  from call [where timeout = "TNum 5"] call [where timeout = TNone] u show ?thesis
    by (simp add: dispatched_def timeout_transport_def svc_client_def no_kwargs_def)
qed

section \<open>Session reuse\<close>

lemmas factory_eval = library_session_def factory_named_def initial_world_def
      HttpServiceFactory_make_service_def HttpServiceFactory_session_def SessionCache_get_def
      SessionCache_set_def HttpClient_make_client_def HttpClient_session_def
      HttpClient_SessionCache_get_def HttpClient_SessionCache_set_def
      make_auth_def HttpService_init_def HttpService_set_url_root_def
      HttpClient_init_def HttpClient_set_url_root_def headers_update_def
      py_last_def Let_def

text \<open>
  One type name used with both factory methods gets two sessions: \<open>make_service\<close> and
  \<open>make_client\<close> read and write different caches.
\<close>

theorem one_name_two_sessions:
  "fst (run library_session [MakeService (factory_named ''A'' ''http://a'') None,
        MakeClient (factory_named ''A'' ''http://a'') None] initial_world)
   = [Inr \<lparr>self_url_root = ''http://a/'', self_requestor = Session 0, self_auth = None, self_timeout = TNone\<rparr>,
      Inr \<lparr>self_url_root = ''http://a/'', self_requestor = Session 1, self_auth = None, self_timeout = TNone\<rparr>] \<and>
   length (sessions (snd (run library_session [MakeService (factory_named ''A'' ''http://a'') None,
        MakeClient (factory_named ''A'' ''http://a'') None] initial_world))) = 2 \<and>
   type_name (MakeService (factory_named ''A'' ''http://a'') None)
     = type_name (MakeClient (factory_named ''A'' ''http://a'') None)"
  by (simp add: factory_eval)

text \<open>
  Claim C5, as the code has it. Each of the two session caches keeps at most one session
  per type name. In any run of factory calls from the state in which no session exists,
  two calls of the same factory method (both \<open>make_service\<close>, whose cache is the one
  of sessions.py, or both \<open>make_client\<close>, whose cache is the one of client.py) that
  return clients return them bound to the same session object exactly when the two
  classes have the same name. And no more sessions exist after the run than distinct type
  names were used with \<open>make_service\<close> plus distinct type names used with
  \<open>make_client\<close>.
\<close>

theorem session_shared_iff_same_type_name:
  assumes "i < length is" and "j < length is"
    and "fst (run fresh is initial_world) ! i = Inr ci"
    and "fst (run fresh is initial_world) ! j = Inr cj"
    and "is_service (is ! i) = is_service (is ! j)"
  shows "(self_requestor ci = self_requestor cj \<longleftrightarrow> type_name (is ! i) = type_name (is ! j)) \<and>
         length (sessions (snd (run fresh is initial_world)))
           \<le> length (service_names is) + length (client_names is)"
proof (rule conjI [OF _ sessions_bounded_by_type_names])
  obtain rs w where run: "run fresh is initial_world = (rs, w)"
    by (cases "run fresh is initial_world")
  note R = run_sessions [OF cache_ok_initial run]
  from R assms run obtain a where a: "cache_of (is ! i) w (type_name (is ! i)) = Some a"
    "self_requestor ci = Session a" by auto
  from R assms run obtain b where b: "cache_of (is ! j) w (type_name (is ! j)) = Some b"
    "self_requestor cj = Session b" by auto
  from R have "cache_ok w" by simp
  with a b assms(5)
  show "self_requestor ci = self_requestor cj \<longleftrightarrow> type_name (is ! i) = type_name (is ! j)"
    by (auto simp: cache_of_def cache_ok_def one_to_one_def split: if_splits)
qed

lemma five_calls:
  "fst (run library_session [MakeService (factory_named ''A'' ''http://a'') None,
        MakeClient (factory_named ''A'' ''http://a'') None,
        MakeClient (factory_named ''B'' ''http://b'') None,
        MakeClient (factory_named ''A'' ''http://a'') None,
        MakeService (factory_named ''A'' ''http://a'') None] initial_world)
   = [Inr \<lparr>self_url_root = ''http://a/'', self_requestor = Session 0, self_auth = None, self_timeout = TNone\<rparr>,
      Inr \<lparr>self_url_root = ''http://a/'', self_requestor = Session 1, self_auth = None, self_timeout = TNone\<rparr>,
      Inr \<lparr>self_url_root = ''http://b/'', self_requestor = Session 2, self_auth = None, self_timeout = TNone\<rparr>,
      Inr \<lparr>self_url_root = ''http://a/'', self_requestor = Session 1, self_auth = None, self_timeout = TNone\<rparr>,
      Inr \<lparr>self_url_root = ''http://a/'', self_requestor = Session 0, self_auth = None, self_timeout = TNone\<rparr>]"
  by (simp add: factory_eval)

theorem session_shared_iff_same_type_name_witness:
  "fst (run library_session [MakeService (factory_named ''A'' ''http://a'') None,
        MakeClient (factory_named ''A'' ''http://a'') None,
        MakeClient (factory_named ''B'' ''http://b'') None,
        MakeClient (factory_named ''A'' ''http://a'') None,
        MakeService (factory_named ''A'' ''http://a'') None] initial_world)
   = [Inr \<lparr>self_url_root = ''http://a/'', self_requestor = Session 0, self_auth = None, self_timeout = TNone\<rparr>,
      Inr \<lparr>self_url_root = ''http://a/'', self_requestor = Session 1, self_auth = None, self_timeout = TNone\<rparr>,
      Inr \<lparr>self_url_root = ''http://b/'', self_requestor = Session 2, self_auth = None, self_timeout = TNone\<rparr>,
      Inr \<lparr>self_url_root = ''http://a/'', self_requestor = Session 1, self_auth = None, self_timeout = TNone\<rparr>,
      Inr \<lparr>self_url_root = ''http://a/'', self_requestor = Session 0, self_auth = None, self_timeout = TNone\<rparr>] \<and>
   (Session 1 = Session 2) = (''A'' = ''B'') \<and>
   (Session 1 = Session 1) = (''A'' = ''A'') \<and>
   (Session 0 = Session 0) = (''A'' = ''A'') \<and>
   length (sessions (snd (run library_session [MakeService (factory_named ''A'' ''http://a'') None,
        MakeClient (factory_named ''A'' ''http://a'') None,
        MakeClient (factory_named ''B'' ''http://b'') None,
        MakeClient (factory_named ''A'' ''http://a'') None,
        MakeService (factory_named ''A'' ''http://a'') None] initial_world))) \<le> 3"
proof -
  let ?is = "[MakeService (factory_named ''A'' ''http://a'') None,
        MakeClient (factory_named ''A'' ''http://a'') None,
        MakeClient (factory_named ''B'' ''http://b'') None,
        MakeClient (factory_named ''A'' ''http://a'') None,
        MakeService (factory_named ''A'' ''http://a'') None]"
  let ?a0 = "\<lparr>self_url_root = ''http://a/'', self_requestor = Session 0, self_auth = None :: unit option, self_timeout = TNone\<rparr>"
  let ?a1 = "\<lparr>self_url_root = ''http://a/'', self_requestor = Session 1, self_auth = None :: unit option, self_timeout = TNone\<rparr>"
  let ?b2 = "\<lparr>self_url_root = ''http://b/'', self_requestor = Session 2, self_auth = None :: unit option, self_timeout = TNone\<rparr>"
  have r: "fst (run library_session ?is initial_world) = [Inr ?a0, Inr ?a1, Inr ?b2, Inr ?a1, Inr ?a0]"
    by (rule five_calls)
  have i0: "fst (run library_session ?is initial_world) ! 0 = Inr ?a0"
    and i1: "fst (run library_session ?is initial_world) ! 1 = Inr ?a1"
    and i2: "fst (run library_session ?is initial_world) ! 2 = Inr ?b2"
    and i3: "fst (run library_session ?is initial_world) ! 3 = Inr ?a1"
    and i4: "fst (run library_session ?is initial_world) ! 4 = Inr ?a0"
    unfolding r by simp_all
  have l0: "0 < length ?is" and l1: "1 < length ?is" and l2: "2 < length ?is"
    and l3: "3 < length ?is" and l4: "4 < length ?is"
    by simp_all
  have s12: "is_service (?is ! 1) = is_service (?is ! 2)"
    and s13: "is_service (?is ! 1) = is_service (?is ! 3)"
    and s04: "is_service (?is ! 0) = is_service (?is ! 4)"
    by simp_all
  note t12 = session_shared_iff_same_type_name [OF l1 l2 i1 i2 s12]
  note t13 = session_shared_iff_same_type_name [OF l1 l3 i1 i3 s13]
  note t04 = session_shared_iff_same_type_name [OF l0 l4 i0 i4 s04]
  have names: "length (service_names ?is) + length (client_names ?is) = 3"
    by (simp add: service_names_def client_names_def factory_named_def)
  from t12 have "(Session 1 = Session 2) = (''A'' = ''B'')"
    by (simp add: factory_named_def)
  moreover from t13 have "(Session 1 = Session 1) = (''A'' = ''A'')"
    by (simp add: factory_named_def)
  moreover from t04 have "(Session 0 = Session 0) = (''A'' = ''A'')"
    by (simp add: factory_named_def)
  moreover from t04 [THEN conjunct2] names
  have "length (sessions (snd (run library_session ?is initial_world))) \<le> 3"
    by simp
  ultimately show ?thesis using r by blast
qed

end
